theory Spec2Isabelle
  imports Main
begin

section \<open>Values of the program\<close>

text \<open>
  The configuration of a guild is the Python dict that \<^verbatim>\<open>json.loads\<close> returns, so the
  model works on JSON values (floats are left out: the program never writes one). A dict
  is an association list read with \<open>map_of\<close>.
\<close>

datatype json =
    JNull
  | JBool bool
  | JInt int
  | JStr string
  | JList "json list"
  | JObj "(string \<times> json) list"

text \<open>The exceptions the modelled code can raise.\<close>

datatype error =
    AttributeError
  | TypeError
  | ValueError
  | OSError

text \<open>
  Message text. A literal piece is \<open>Txt\<close>; a character outside ASCII is \<open>Uni\<close> with its
  code point; the mentions and numbers that the f-strings splice in are kept symbolic.
\<close>

datatype frag =
    Txt string
  | Uni nat
  | RoleRef int      \<comment> \<open>\<^verbatim>\<open><@&id>\<close>\<close>
  | UserRef int      \<comment> \<open>\<^verbatim>\<open><@id>\<close>\<close>
  | ChannelRef int   \<comment> \<open>\<^verbatim>\<open><#id>\<close>\<close>
  | Num int          \<comment> \<open>an integer formatted by an f-string\<close>
  | UserText string  \<comment> \<open>free text typed by a user\<close>
  | JumpUrl int      \<comment> \<open>\<^verbatim>\<open>jump_url\<close> of the message just sent to that channel\<close>

type_synonym msgtext = "frag list"

record role =
  role_id :: int
  role_name :: string
  position :: int
  is_default :: bool

text \<open>\<^verbatim>\<open>interaction.user\<close> is a \<^verbatim>\<open>discord.Member\<close> inside a guild and a plain
  \<^verbatim>\<open>discord.User\<close> otherwise.\<close>

datatype user =
    User int
  | Member int "role list" bool   \<comment> \<open>id, roles, \<^verbatim>\<open>guild_permissions.administrator\<close>\<close>

fun user_id :: "user \<Rightarrow> int" where
  "user_id (User i) = i"
| "user_id (Member i rs a) = i"

fun is_Member :: "user \<Rightarrow> bool" where
  "is_Member (User i) = False"
| "is_Member (Member i rs a) = True"

fun member_roles :: "user \<Rightarrow> error + role list" where
  "member_roles (User i) = Inl AttributeError"
| "member_roles (Member i rs a) = Inr rs"


definition user_mention :: "user \<Rightarrow> frag" where
  "user_mention u = UserRef (user_id u)"

text \<open>\<^verbatim>\<open>role.mention\<close> is \<^verbatim>\<open><@&id>\<close> for every role, the default role included.\<close>

definition role_mention :: "role \<Rightarrow> frag" where
  "role_mention r = RoleRef (role_id r)"

section \<open>Python primitives used by the bot\<close>

text \<open>Truth value of an object (\<^verbatim>\<open>not x\<close> is its negation).\<close>

fun truthy :: "json \<Rightarrow> bool" where
  "truthy JNull = False"
| "truthy (JBool b) = b"
| "truthy (JInt n) = (n \<noteq> 0)"
| "truthy (JStr s) = (s \<noteq> [])"
| "truthy (JList xs) = (xs \<noteq> [])"
| "truthy (JObj kvs) = (kvs \<noteq> [])"

text \<open>\<^verbatim>\<open>cfg.get(key, default)\<close>: only a dict has the method.\<close>

fun dict_get :: "json \<Rightarrow> string \<Rightarrow> json \<Rightarrow> error + json" where
  "dict_get (JObj kvs) k d = (case map_of kvs k of None \<Rightarrow> Inr d | Some v \<Rightarrow> Inr v)"
| "dict_get _ k d = Inl AttributeError"

text \<open>The elements a \<^verbatim>\<open>for\<close> loop draws from an object.\<close>

fun py_iter :: "json \<Rightarrow> error + json list" where
  "py_iter (JList xs) = Inr xs"
| "py_iter (JStr s) = Inr (map (\<lambda>c. JStr [c]) s)"
| "py_iter (JObj kvs) = Inr (map JStr (remdups (map fst kvs)))"
| "py_iter _ = Inl TypeError"

text \<open>\<^verbatim>\<open>x in s\<close> for a set \<open>s\<close> of integers: \<open>x\<close> is hashed, then compared; \<^verbatim>\<open>True == 1\<close>.\<close>

fun py_in :: "json \<Rightarrow> int list \<Rightarrow> error + bool" where
  "py_in (JInt n) ids = Inr (n \<in> set ids)"
| "py_in (JBool b) ids = Inr ((if b then 1 else 0) \<in> set ids)"
| "py_in JNull ids = Inr False"
| "py_in (JStr s) ids = Inr False"
| "py_in (JList xs) ids = Inl TypeError"
| "py_in (JObj kvs) ids = Inl TypeError"

text \<open>\<^verbatim>\<open>any(rid in ids for rid in rids)\<close> stops at the first hit.\<close>

fun any_in :: "json list \<Rightarrow> int list \<Rightarrow> error + bool" where
  "any_in [] ids = Inr False"
| "any_in (r # rs) ids =
     (case py_in r ids of
        Inl e \<Rightarrow> Inl e
      | Inr True \<Rightarrow> Inr True
      | Inr False \<Rightarrow> any_in rs ids)"

text \<open>Sequencing of steps that can raise: the first exception ends the computation.\<close>

definition and_then :: "error + 'a \<Rightarrow> ('a \<Rightarrow> error + 'b) \<Rightarrow> error + 'b" where
  "and_then r f = (case r of Inl e \<Rightarrow> Inl e | Inr x \<Rightarrow> f x)"

section \<open>Authorization\<close>

definition member_has_any_role :: "user \<Rightarrow> json \<Rightarrow> error + bool" where
  "member_has_any_role member role_ids =
     (if \<not> truthy role_ids then Inr False
      else
        (case member_roles member of
           Inl e \<Rightarrow> Inl e
         | Inr rs \<Rightarrow>
             (case py_iter role_ids of
                Inl e \<Rightarrow> Inl e
              | Inr rids \<Rightarrow> any_in rids (map role_id rs))))"

definition msg_not_configured :: msgtext where
  "msg_not_configured =
     [Txt ''No allowed roles are configured yet. Ask an admin to run `/setup`.'']"

definition msg_use_in_server :: msgtext where
  "msg_use_in_server = [Txt ''Use this in a server.'']"

definition msg_missing_role :: msgtext where
  "msg_missing_role =
     [Txt ''You don'', Uni 0x2019, Txt ''t have a required role to use this command.'']"

definition msg_excluded :: msgtext where
  "msg_excluded = [Txt ''Your role is excluded from using this command.'']"

definition can_use_commands :: "user \<Rightarrow> json \<Rightarrow> error + (bool \<times> msgtext)" where
  "can_use_commands member cfg =
     (case dict_get cfg ''allowed_role_ids'' (JList []) of
        Inl e \<Rightarrow> Inl e
      | Inr allowed \<Rightarrow>
     (case dict_get cfg ''excluded_role_ids'' (JList []) of
        Inl e \<Rightarrow> Inl e
      | Inr excluded \<Rightarrow>
          if \<not> truthy allowed then Inr (False, msg_not_configured)
          else if \<not> is_Member member then Inr (False, msg_use_in_server)
          else
            (case member_has_any_role member allowed of
               Inl e \<Rightarrow> Inl e
             | Inr has_allowed \<Rightarrow>
                 if \<not> has_allowed then Inr (False, msg_missing_role)
                 else if \<not> truthy excluded then Inr (True, [])
                 else
                   (case member_has_any_role member excluded of
                      Inl e \<Rightarrow> Inl e
                    | Inr has_excluded \<Rightarrow>
                        if has_excluded then Inr (False, msg_excluded)
                        else Inr (True, [])))))"

section \<open>The guild, the file store and the effects\<close>

record channel =
  channel_id :: int
  channel_name :: string
  is_text :: bool   \<comment> \<open>\<^verbatim>\<open>isinstance(ch, discord.TextChannel)\<close>\<close>

record guild =
  guild_id :: int
  guild_roles :: "role list"
  guild_channels :: "channel list"   \<comment> \<open>in the order of the channel list\<close>

definition text_channels :: "guild \<Rightarrow> channel list" where
  "text_channels g = filter is_text (guild_channels g)"

definition get_role :: "guild \<Rightarrow> int \<Rightarrow> role option" where
  "get_role g rid = find (\<lambda>r. role_id r = rid) (guild_roles g)"

definition get_channel :: "guild \<Rightarrow> int \<Rightarrow> channel option" where
  "get_channel g cid = find (\<lambda>c. channel_id c = cid) (guild_channels g)"

text \<open>
  The lookups are dict lookups by id: called on a value read from the configuration they
  raise on an unhashable key and find nothing for a key that is no integer.
\<close>

fun py_key :: "json \<Rightarrow> error + int option" where
  "py_key (JInt n) = Inr (Some n)"
| "py_key (JBool b) = Inr (Some (if b then 1 else 0))"
| "py_key JNull = Inr None"
| "py_key (JStr s) = Inr None"
| "py_key (JList xs) = Inl TypeError"
| "py_key (JObj kvs) = Inl TypeError"

definition get_role_j :: "guild \<Rightarrow> json \<Rightarrow> error + role option" where
  "get_role_j g j =
     (case py_key j of
        Inl e \<Rightarrow> Inl e
      | Inr None \<Rightarrow> Inr None
      | Inr (Some n) \<Rightarrow> Inr (get_role g n))"

definition get_channel_j :: "guild \<Rightarrow> json \<Rightarrow> error + channel option" where
  "get_channel_j g j =
     (case py_key j of
        Inl e \<Rightarrow> Inl e
      | Inr None \<Rightarrow> Inr None
      | Inr (Some n) \<Rightarrow> Inr (get_channel g n))"

definition channel_mention :: "channel \<Rightarrow> frag" where
  "channel_mention c = ChannelRef (channel_id c)"

text \<open>
  An entry of the config directory: a file with its text, or something that exists and
  cannot be read as UTF-8 text. \<open>writable\<close> says whether \<^verbatim>\<open>write_text\<close> succeeds for
  the file of a guild. When it fails, \<open>torn\<close> says how: \<open>None\<close> when the file cannot be
  opened, which leaves it as it was, and \<open>Some n\<close> when the file was opened, which empties
  it, and the write broke off after \<open>n\<close> characters. \<open>now\<close> is \<^verbatim>\<open>int(time.time())\<close>.
\<close>

datatype fs_entry = Unreadable | Contents string

record world =
  files :: "int \<Rightarrow> fs_entry option"
  writable :: "int \<Rightarrow> bool"
  torn :: "int \<Rightarrow> nat option"
  now :: int

text \<open>The \<^verbatim>\<open>json\<close> module is a parameter of the model.\<close>

record json_lib =
  loads :: "string \<Rightarrow> error + json"
  dumps :: "json \<Rightarrow> string"

record allowed_mentions =
  am_roles :: bool
  am_users :: bool
  am_everyone :: bool

datatype color = Red | Orange

record embed =
  embed_title :: msgtext
  embed_color :: color
  embed_description :: msgtext

text \<open>What a handler does to the outside, in the order it does it.\<close>

datatype event =
    FileWrite int string
      \<comment> \<open>\<^verbatim>\<open>cfg_path(guild_id).write_text(text)\<close>, completed\<close>
  | SendMessage msgtext bool
      \<comment> \<open>\<^verbatim>\<open>interaction.response.send_message(content, ephemeral=...)\<close>\<close>
  | EditMessage msgtext
      \<comment> \<open>\<^verbatim>\<open>interaction.response.edit_message(content=..., view=None)\<close>\<close>
  | ChannelSend int msgtext "embed option" allowed_mentions
      \<comment> \<open>\<^verbatim>\<open>channel.send(content=..., embed=..., allowed_mentions=...)\<close>\<close>
  | SendModal
  | Defer

section \<open>The config store\<close>

definition load_cfg :: "json_lib \<Rightarrow> world \<Rightarrow> int \<Rightarrow> json" where
  "load_cfg J w gid =
     (case files w gid of
        None \<Rightarrow> JObj []
      | Some Unreadable \<Rightarrow> JObj []
      | Some (Contents t) \<Rightarrow>
          (case loads J t of Inl e \<Rightarrow> JObj [] | Inr v \<Rightarrow> v))"

definition save_cfg :: "json_lib \<Rightarrow> world \<Rightarrow> int \<Rightarrow> json \<Rightarrow> (error + unit) \<times> world \<times> event list" where
  "save_cfg J w gid data =
     (if writable w gid
      then (Inr (), w\<lparr>files := (files w)(gid \<mapsto> Contents (dumps J data))\<rparr>,
            [FileWrite gid (dumps J data)])
      else (Inl OSError,
            (case torn w gid of
               None \<Rightarrow> w
             | Some n \<Rightarrow> w\<lparr>files := (files w)(gid \<mapsto> Contents (take n (dumps J data)))\<rparr>),
            []))"

section \<open>Mentions and the audit log\<close>

fun join :: "msgtext \<Rightarrow> msgtext list \<Rightarrow> msgtext" where
  "join sep [] = []"
| "join sep [t] = t"
| "join sep (t # ts) = t @ sep @ join sep ts"

definition get_role_mentions :: "guild \<Rightarrow> int list \<Rightarrow> msgtext" where
  "get_role_mentions g role_ids =
     join [Txt '', '']
       (map (\<lambda>r. [role_mention r]) (List.map_filter (get_role g) role_ids))"

definition get_channel_mention :: "guild \<Rightarrow> int option \<Rightarrow> msgtext" where
  "get_channel_mention g cid =
     (case cid of
        None \<Rightarrow> [Txt ''Not set'']
      | Some n \<Rightarrow>
          if n = 0 then [Txt ''Not set'']
          else
            (case get_channel g n of
               None \<Rightarrow> [Txt ''Not set'']
             | Some ch \<Rightarrow> if is_text ch then [channel_mention ch] else [Txt ''Not set'']))"

definition log_action :: "guild \<Rightarrow> json \<Rightarrow> msgtext \<Rightarrow> embed option \<Rightarrow> (error + unit) \<times> event list" where
  "log_action g cfg content emb =
     (case dict_get cfg ''log_channel_id'' JNull of
        Inl e \<Rightarrow> (Inl e, [])
      | Inr log_channel_id \<Rightarrow>
          if \<not> truthy log_channel_id then (Inr (), [])
          else
            (case get_channel_j g log_channel_id of
               Inl e \<Rightarrow> (Inl e, [])
             | Inr None \<Rightarrow> (Inr (), [])
             | Inr (Some ch) \<Rightarrow>
                 if is_text ch
                 then (Inr (),
                       [ChannelSend (channel_id ch) content emb
                          \<lparr>am_roles = True, am_users = True, am_everyone = False\<rparr>])
                 else (Inr (), [])))"

section \<open>The setup panel\<close>

text \<open>
  The value of a select option is a string: the panel only builds \<^verbatim>\<open>"none"\<close> and
  \<^verbatim>\<open>str(id)\<close>, and the values that a select reports are values of its options.
  \<^verbatim>\<open>int("none")\<close> raises.
\<close>

datatype select_value = SNone | SId int

fun py_int :: "select_value \<Rightarrow> error + int" where
  "py_int SNone = Inl ValueError"
| "py_int (SId n) = Inr n"

text \<open>\<^verbatim>\<open>[int(v) for v in values]\<close>\<close>

fun ints_of :: "select_value list \<Rightarrow> error + int list" where
  "ints_of [] = Inr []"
| "ints_of (v # vs) =
     (case py_int v of
        Inl e \<Rightarrow> Inl e
      | Inr n \<Rightarrow> (case ints_of vs of Inl e \<Rightarrow> Inl e | Inr ns \<Rightarrow> Inr (n # ns)))"

record select_option =
  opt_label :: string
  opt_value :: select_value
  opt_default :: bool

text \<open>
  \<^verbatim>\<open>discord.ui.Select\<close>: \<open>sel_values\<close> is the \<^verbatim>\<open>values\<close> property, which is empty until the
  user submits a selection on the component and then holds the values of the latest
  submission; the \<^verbatim>\<open>default\<close> flags of the options do not enter it.
\<close>

text \<open>A component sits in one of the rows 0 to 4 of a message: any other row makes the
  constructor of the component raise.\<close>

definition check_row :: "nat \<Rightarrow> error + nat" where
  "check_row row = (if row < 5 then Inr row else Inl ValueError)"

record select =
  sel_placeholder :: string
  sel_min_values :: nat
  sel_max_values :: nat
  sel_options :: "select_option list"
  sel_row :: nat
  sel_values :: "select_value list"

record roles_select = select +
  roles_preselected :: "json list"

record channels_select = select +
  allow_none :: bool
  chan_preselected :: json

fun hashable :: "json \<Rightarrow> bool" where
  "hashable (JList xs) = False"
| "hashable (JObj kvs) = False"
| "hashable _ = True"

text \<open>\<^verbatim>\<open>set(x)\<close>, kept as a list without repetitions. (Python also identifies \<^verbatim>\<open>True\<close> with
  \<^verbatim>\<open>1\<close> in a set; the list keeps both, and \<open>int_in\<close> below finds either.)\<close>

definition py_set :: "json \<Rightarrow> error + json list" where
  "py_set j =
     (case py_iter j of
        Inl e \<Rightarrow> Inl e
      | Inr xs \<Rightarrow> if list_all hashable xs then Inr (remdups xs) else Inl TypeError)"

text \<open>\<^verbatim>\<open>n == x\<close> for an integer \<open>n\<close>, and \<^verbatim>\<open>n in s\<close> for a set \<open>s\<close> of hashable values.\<close>

definition int_eq :: "int \<Rightarrow> json \<Rightarrow> bool" where
  "int_eq n j = (py_key j = Inr (Some n))"

definition int_in :: "int \<Rightarrow> json list \<Rightarrow> bool" where
  "int_in n s = list_ex (int_eq n) s"

definition RolesSelect :: "string \<Rightarrow> json \<Rightarrow> nat \<Rightarrow> nat \<Rightarrow> error + roles_select" where
  "RolesSelect ph preselected maxv row =
     and_then (check_row row) (\<lambda>r.
     and_then (if truthy preselected then py_set preselected else Inr []) (\<lambda>pre.
     Inr \<lparr>sel_placeholder = ph, sel_min_values = 0, sel_max_values = maxv,
          sel_options = [], sel_row = r, sel_values = [],
          roles_preselected = pre\<rparr>))"

definition ChannelsSelect :: "string \<Rightarrow> bool \<Rightarrow> json \<Rightarrow> nat \<Rightarrow> error + channels_select" where
  "ChannelsSelect ph an preselected row =
     and_then (check_row row) (\<lambda>r.
     Inr \<lparr>sel_placeholder = ph, sel_min_values = (if an then 0 else 1), sel_max_values = 1,
          sel_options = [], sel_row = r, sel_values = [],
          allow_none = an, chan_preselected = preselected\<rparr>)"

datatype button_style = Success | Secondary

record button =
  btn_style :: button_style
  btn_label :: string
  btn_row :: nat

text \<open>\<^verbatim>\<open>discord.ui.Button(style=..., label=..., row=...)\<close>\<close>

definition Button :: "button_style \<Rightarrow> string \<Rightarrow> nat \<Rightarrow> error + button" where
  "Button st label row =
     and_then (check_row row) (\<lambda>r. Inr \<lparr>btn_style = st, btn_label = label, btn_row = r\<rparr>)"

text \<open>\<^verbatim>\<open>sorted(guild.roles, key=lambda x: x.position, reverse=True)\<close> without the default
  role: the sort is stable.\<close>

definition pickable_roles :: "guild \<Rightarrow> role list" where
  "pickable_roles g =
     filter (\<lambda>r. \<not> is_default r) (sort_key (\<lambda>r. - position r) (guild_roles g))"

definition role_option :: "(int \<Rightarrow> bool) \<Rightarrow> role \<Rightarrow> select_option" where
  "role_option dflt r =
     \<lparr>opt_label = take 95 (role_name r), opt_value = SId (role_id r),
      opt_default = dflt (role_id r)\<rparr>"

definition channel_option :: "json \<Rightarrow> channel \<Rightarrow> select_option" where
  "channel_option chosen ch =
     \<lparr>opt_label = take 95 (''#'' @ channel_name ch), opt_value = SId (channel_id ch),
      opt_default = int_eq (channel_id ch) chosen\<rparr>"

definition none_option :: "json \<Rightarrow> select_option" where
  "none_option chosen =
     \<lparr>opt_label = ''None'', opt_value = SNone, opt_default = (chosen = JNull)\<rparr>"

record setup_view =
  view_timeout :: nat
  view_guild :: guild
  view_cfg :: json
  invoker :: user
  allowed_select :: roles_select
  excluded_select :: roles_select
  admiral_select :: roles_select
  war_select :: channels_select
  log_select :: channels_select

text \<open>
  \<^verbatim>\<open>SetupView.__init__\<close>; \<^verbatim>\<open>cfg.copy()\<close> and \<^verbatim>\<open>cfg.get\<close> need a dict. The five selects take
  the rows 0 to 4, and the constructor then asks for the two buttons in row 5: it raises
  there at the latest, so the record that the last line builds is never reached. The
  buttons, which no handler reads, are not fields of \<open>setup_view\<close>.
\<close>

definition SetupView :: "guild \<Rightarrow> json \<Rightarrow> user \<Rightarrow> error + setup_view" where
  "SetupView g cfg invoking_member =
     and_then (dict_get cfg ''allowed_role_ids'' (JList [])) (\<lambda>allowed_j.
     and_then (py_set allowed_j) (\<lambda>allowed_ids.
     and_then (dict_get cfg ''excluded_role_ids'' (JList [])) (\<lambda>excluded_j.
     and_then (py_set excluded_j) (\<lambda>excluded_ids.
     and_then (dict_get cfg ''admiral_role_id'' JNull) (\<lambda>admiral_id.
     and_then (dict_get cfg ''war_channel_id'' JNull) (\<lambda>war_channel_id.
     and_then (dict_get cfg ''log_channel_id'' JNull) (\<lambda>log_channel_id.
     and_then (RolesSelect ''Allowed Roles (who can use commands)'' (JList allowed_ids) 25 0)
       (\<lambda>allowed_sel.
     and_then (RolesSelect ''Excluded Roles (block these)'' (JList excluded_ids) 25 1)
       (\<lambda>excluded_sel.
     and_then (RolesSelect ''Admiral Role (optional, pinged on /declare)''
                 (if truthy admiral_id then JList [admiral_id] else JList []) 1 2)
       (\<lambda>admiral_sel.
     and_then (ChannelsSelect ''War Declaration Channel (optional)'' True war_channel_id 3)
       (\<lambda>war_sel.
     and_then (ChannelsSelect ''Log Channel (required, recommend private)'' False
                 log_channel_id 4)
       (\<lambda>log_sel.
     and_then (Button Success ''Save'' 5) (\<lambda>save_btn.
     and_then (Button Secondary ''Cancel'' 5) (\<lambda>cancel_btn.
     Inr \<lparr>view_timeout = 600, view_guild = g, view_cfg = cfg, invoker = invoking_member,
          allowed_select = allowed_sel
            \<lparr>sel_options :=
               map (role_option (\<lambda>i. int_in i allowed_ids)) (pickable_roles g)\<rparr>,
          excluded_select = excluded_sel
            \<lparr>sel_options :=
               map (role_option (\<lambda>i. int_in i excluded_ids)) (pickable_roles g)\<rparr>,
          admiral_select = admiral_sel
            \<lparr>sel_options :=
               none_option admiral_id
                 # map (role_option (\<lambda>i. int_eq i admiral_id)) (pickable_roles g)\<rparr>,
          war_select = war_sel
            \<lparr>sel_options :=
               none_option war_channel_id
                 # map (channel_option war_channel_id) (text_channels g)\<rparr>,
          log_select = log_sel
            \<lparr>sel_options :=
               map (channel_option log_channel_id) (text_channels g)\<rparr>\<rparr>))))))))))))))"

text \<open>
  A component interaction on a select: the library stores the submitted values in the
  component, where \<^verbatim>\<open>values\<close> reads them.
\<close>

datatype component = AllowedSel | ExcludedSel | AdmiralSel | WarSel | LogSel

fun refresh_state :: "component \<Rightarrow> select_value list \<Rightarrow> setup_view \<Rightarrow> setup_view" where
  "refresh_state AllowedSel vs v = v\<lparr>allowed_select := (allowed_select v)\<lparr>sel_values := vs\<rparr>\<rparr>"
| "refresh_state ExcludedSel vs v = v\<lparr>excluded_select := (excluded_select v)\<lparr>sel_values := vs\<rparr>\<rparr>"
| "refresh_state AdmiralSel vs v = v\<lparr>admiral_select := (admiral_select v)\<lparr>sel_values := vs\<rparr>\<rparr>"
| "refresh_state WarSel vs v = v\<lparr>war_select := (war_select v)\<lparr>sel_values := vs\<rparr>\<rparr>"
| "refresh_state LogSel vs v = v\<lparr>log_select := (log_select v)\<lparr>sel_values := vs\<rparr>\<rparr>"

record interaction =
  inter_user :: user
  inter_guild :: "guild option"
  inter_channel :: channel

text \<open>
  A method of the view takes the world and the view and returns what it returns or
  raises, the world and the view it leaves, and what it did.
\<close>

type_synonym 'a outcome = "(error + 'a) \<times> world \<times> setup_view \<times> event list"





definition nl :: frag where
  "nl = Txt [CHR 0x0A]"

text \<open>\<^verbatim>\<open>s or '_none_'\<close>: a mention is never the empty string.\<close>

definition or_none :: "msgtext \<Rightarrow> msgtext" where
  "or_none t = (if t = [] then [Txt ''_none_''] else t)"

text \<open>The first value of an optional single select, \<^verbatim>\<open>None\<close> when there is no value or it
  is \<^verbatim>\<open>"none"\<close>.\<close>

fun first_id :: "select_value list \<Rightarrow> int option" where
  "first_id [] = None"
| "first_id (SNone # vs) = None"
| "first_id (SId n # vs) = Some n"

definition json_of_id :: "int option \<Rightarrow> json" where
  "json_of_id x = (case x of None \<Rightarrow> JNull | Some n \<Rightarrow> JInt n)"

definition new_cfg :: "int list \<Rightarrow> int list \<Rightarrow> int option \<Rightarrow> int option \<Rightarrow> int \<Rightarrow> int \<Rightarrow> int \<Rightarrow> json" where
  "new_cfg allowed excluded admiral_role_id war_channel_id log_channel_id uid t =
     JObj [(''allowed_role_ids'', JList (map JInt allowed)),
           (''excluded_role_ids'', JList (map JInt excluded)),
           (''admiral_role_id'', json_of_id admiral_role_id),
           (''war_channel_id'', json_of_id war_channel_id),
           (''log_channel_id'', JInt log_channel_id),
           (''updated_by'', JInt uid),
           (''updated_at'', JInt t)]"

definition admiral_text :: "guild \<Rightarrow> int option \<Rightarrow> msgtext" where
  "admiral_text g admiral_role_id =
     (case admiral_role_id of
        None \<Rightarrow> [Txt ''Not set'']
      | Some n \<Rightarrow>
          if n = 0 then [Txt ''Not set'']
          else
            (case get_role g n of
               None \<Rightarrow> [Txt ''Not set'']
             | Some r \<Rightarrow> [role_mention r]))"

definition summary :: "guild \<Rightarrow> int list \<Rightarrow> int list \<Rightarrow> int option \<Rightarrow> int option \<Rightarrow> int \<Rightarrow> msgtext" where
  "summary g allowed excluded admiral_role_id war_channel_id log_channel_id =
     [Txt ''**Allowed:** ''] @ or_none (get_role_mentions g allowed) @ [nl]
     @ [Txt ''**Excluded:** ''] @ or_none (get_role_mentions g excluded) @ [nl]
     @ [Txt ''**Admiral Role:** ''] @ admiral_text g admiral_role_id @ [nl]
     @ [Txt ''**War Channel:** ''] @ get_channel_mention g war_channel_id @ [nl]
     @ [Txt ''**Log Channel:** ''] @ get_channel_mention g (Some log_channel_id)"

definition msg_select_log :: msgtext where
  "msg_select_log = [Txt ''Please select a **Log Channel**.'']"

text \<open>\<^verbatim>\<open>SetupView.save\<close>, the callback of the Save button.\<close>

definition save :: "json_lib \<Rightarrow> world \<Rightarrow> setup_view \<Rightarrow> interaction \<Rightarrow> unit outcome" where
  "save J w v interaction =
     (case and_then (ints_of (sel_values (allowed_select v))) (\<lambda>allowed.
           and_then (ints_of (sel_values (excluded_select v))) (\<lambda>excluded.
           Inr (allowed, excluded))) of
        Inl e \<Rightarrow> (Inl e, w, v, [])
      | Inr (allowed, excluded) \<Rightarrow>
          let admiral_role_id = first_id (sel_values (admiral_select v));
              war_channel_id = first_id (sel_values (war_select v))
          in (case sel_values (log_select v) of
                [] \<Rightarrow> (Inr (), w, v, [SendMessage msg_select_log True])
              | lv # lvs \<Rightarrow>
                  (case py_int lv of
                     Inl e \<Rightarrow> (Inl e, w, v, [])
                   | Inr log_channel_id \<Rightarrow>
                       let cfg' = new_cfg allowed excluded admiral_role_id war_channel_id
                                    log_channel_id (user_id (inter_user interaction)) (now w);
                           (r, w', evs) = save_cfg J w (guild_id (view_guild v)) cfg'
                       in (case r of
                             Inl e \<Rightarrow> (Inl e, w', v, evs)
                           | Inr u \<Rightarrow>
                               let s = summary (view_guild v) allowed excluded admiral_role_id
                                         war_channel_id log_channel_id;
                                   (r', evs') =
                                     log_action (view_guild v) cfg'
                                       ([Uni 0x1F6E0, Uni 0xFE0F,
                                         Txt '' Configuration updated by '',
                                         user_mention (inter_user interaction), Txt ''.'', nl] @ s)
                                       None
                               in (r', w', v,
                                   evs
                                   @ [EditMessage
                                        ([Uni 0x2705, Txt '' **Configuration saved.**'', nl] @ s)]
                                   @ evs')))))"




section \<open>The commands behind the access check\<close>

text \<open>The check that runs before \<^verbatim>\<open>/roe\<close> and \<^verbatim>\<open>/declare\<close>.\<close>

definition require_configured_access :: "json_lib \<Rightarrow> world \<Rightarrow> interaction \<Rightarrow> (error + bool) \<times> event list" where
  "require_configured_access J w interaction =
     (case inter_guild interaction of
        None \<Rightarrow> (Inr False, [SendMessage [Txt ''Use in a server.''] True])
      | Some g \<Rightarrow>
          (case can_use_commands (inter_user interaction) (load_cfg J w (guild_id g)) of
             Inl e \<Rightarrow> (Inl e, [])
           | Inr (ok, msg) \<Rightarrow>
               if \<not> ok then (Inr False, [SendMessage msg True]) else (Inr True, [])))"

definition posted_link :: "channel \<Rightarrow> msgtext" where
  "posted_link ch =
     [channel_mention ch, Txt '' (jump: '', JumpUrl (channel_id ch), Txt '')'']"

text \<open>\<^verbatim>\<open>after_modal_submit\<close> of \<^verbatim>\<open>/roe\<close>; the variables it closes over are parameters.\<close>

definition roe_after_modal_submit ::
  "world \<Rightarrow> guild \<Rightarrow> json \<Rightarrow> interaction \<Rightarrow> user \<Rightarrow> role \<Rightarrow> string \<Rightarrow> (error + unit) \<times> event list" where
  "roe_after_modal_submit w g cfg interaction offender target_role reason_text =
     (let ts = now w;
          emb = \<lparr>embed_title = [Uni 0x1F6A8, Txt '' RoE Violation Report''],
                 embed_color = Red,
                 embed_description =
                   [Txt ''**Offender:** '', user_mention offender, nl,
                    Txt ''**Reported by:** '', user_mention (inter_user interaction), nl,
                    Txt ''**Details:** '', UserText reason_text, nl,
                    Txt ''**When:** <t:'', Num ts, Txt '':F>'']\<rparr>;
          content = [role_mention target_role];
          ch = inter_channel interaction;
          (r, evs) =
            log_action g cfg
              [Txt ''RoE reported by '', user_mention (inter_user interaction),
               Txt '' against '', user_mention offender, Txt '' | Pinged '',
               role_mention target_role, Txt '' in '', channel_mention ch, Txt ''.'']
              None
      in (r,
          [ChannelSend (channel_id ch) content (Some emb)
             \<lparr>am_roles = True, am_users = True, am_everyone = False\<rparr>,
           SendMessage ([Txt ''Posted in ''] @ posted_link ch @ [Txt ''.'']) True]
          @ evs))"

definition roe ::
  "json_lib \<Rightarrow> world \<Rightarrow> interaction \<Rightarrow> user \<Rightarrow> role
     \<Rightarrow> (error + (world \<Rightarrow> string \<Rightarrow> (error + unit) \<times> event list)) \<times> event list" where
  "roe J w interaction offender target_role =
     (case inter_guild interaction of
        None \<Rightarrow> (Inl AttributeError, [])
      | Some g \<Rightarrow>
          (Inr (\<lambda>w' reason_text.
                  roe_after_modal_submit w' g (load_cfg J w (guild_id g)) interaction
                    offender target_role reason_text),
           [SendModal]))"

text \<open>\<^verbatim>\<open>after_modal_submit\<close> of \<^verbatim>\<open>/declare\<close>.\<close>

definition declare_after_modal_submit ::
  "world \<Rightarrow> guild \<Rightarrow> json \<Rightarrow> interaction \<Rightarrow> role \<Rightarrow> role option \<Rightarrow> channel option \<Rightarrow> string
     \<Rightarrow> (error + unit) \<times> event list" where
  "declare_after_modal_submit w g cfg interaction target admiral_role war_channel reason_text =
     (let ts = now w;
          emb = \<lparr>embed_title = [Uni 0x1F6E1, Uni 0xFE0F, Txt '' War Declaration''],
                 embed_color = Orange,
                 embed_description =
                   [Txt ''**Declaring Against:** '', role_mention target, nl,
                    Txt ''**Declared by:** '', user_mention (inter_user interaction), nl,
                    Txt ''**Reason:** '', UserText reason_text, nl,
                    Txt ''**When:** <t:'', Num ts, Txt '':F>'']\<rparr>;
          mentions = [role_mention target]
                     @ (case admiral_role of None \<Rightarrow> [] | Some a \<Rightarrow> [role_mention a]);
          content = join [Txt '' ''] (map (\<lambda>m. [m]) mentions);
          ch = inter_channel interaction;
          here = [ChannelSend (channel_id ch) content (Some emb)
                    \<lparr>am_roles = True, am_users = True, am_everyone = False\<rparr>];
          there = (case war_channel of
                     None \<Rightarrow> []
                   | Some wc \<Rightarrow>
                       if is_text wc
                       then [ChannelSend (channel_id wc) content (Some emb)
                               \<lparr>am_roles = True, am_users = True, am_everyone = False\<rparr>]
                       else []);
          msg_links = [posted_link ch]
                      @ (case war_channel of
                           None \<Rightarrow> []
                         | Some wc \<Rightarrow> if is_text wc then [posted_link wc] else []);
          (r, evs) =
            log_action g cfg
              ([Txt ''War declared by '', user_mention (inter_user interaction),
                Txt '' vs '', role_mention target, Txt ''. Pings: '']
               @ (if content = [] then [Txt ''none''] else content)
               @ [Txt ''. Posted to: ''] @ join [Txt '', ''] msg_links)
              None
      in (r,
          here @ there
          @ [SendMessage ([Txt ''Posted: ''] @ join [Txt '' and ''] msg_links) True]
          @ evs))"

text \<open>The command \<^verbatim>\<open>declare\<close>.\<close>

definition declare_command ::
  "json_lib \<Rightarrow> world \<Rightarrow> interaction \<Rightarrow> role
     \<Rightarrow> (error + (world \<Rightarrow> string \<Rightarrow> (error + unit) \<times> event list)) \<times> event list" where
  "declare_command J w interaction target =
     (case inter_guild interaction of
        None \<Rightarrow> (Inl AttributeError, [])
      | Some g \<Rightarrow>
          let cfg = load_cfg J w (guild_id g) in
          (case and_then (dict_get cfg ''admiral_role_id'' JNull) (\<lambda>admiral_role_id.
                and_then (if truthy admiral_role_id then get_role_j g admiral_role_id
                          else Inr None) (\<lambda>admiral_role.
                and_then (dict_get cfg ''war_channel_id'' JNull) (\<lambda>war_channel_id.
                and_then (if truthy war_channel_id then get_channel_j g war_channel_id
                          else Inr None) (\<lambda>war_channel.
                Inr (admiral_role, war_channel))))) of
             Inl e \<Rightarrow> (Inl e, [])
           | Inr (admiral_role, war_channel) \<Rightarrow>
               (Inr (\<lambda>w' reason_text.
                       declare_after_modal_submit w' g cfg interaction target admiral_role
                         war_channel reason_text),
                [SendModal])))"

section \<open>Notions used to state the properties\<close>

text \<open>The parts of what a method of the view leaves behind.\<close>

definition result_of :: "'a outcome \<Rightarrow> error + 'a" where
  "result_of out = fst out"

definition world_after :: "'a outcome \<Rightarrow> world" where
  "world_after out = fst (snd out)"

definition view_after :: "'a outcome \<Rightarrow> setup_view" where
  "view_after out = fst (snd (snd out))"

definition events_of :: "'a outcome \<Rightarrow> event list" where
  "events_of out = snd (snd (snd out))"

fun is_file_write :: "event \<Rightarrow> bool" where
  "is_file_write (FileWrite gid t) = True"
| "is_file_write _ = False"

fun is_channel_send :: "event \<Rightarrow> bool" where
  "is_channel_send (ChannelSend c t e am) = True"
| "is_channel_send _ = False"

text \<open>\<^verbatim>\<open>edit_message(..., view=None)\<close> takes the panel off the message.\<close>

fun closes_panel :: "event \<Rightarrow> bool" where
  "closes_panel (EditMessage t) = True"
| "closes_panel _ = False"

fun sent_content :: "event \<Rightarrow> msgtext" where
  "sent_content (ChannelSend c t e am) = t"
| "sent_content _ = []"

text \<open>A message sent to a channel cannot ping everyone.\<close>

fun everyone_disabled :: "event \<Rightarrow> bool" where
  "everyone_disabled (ChannelSend c t e am) = (\<not> am_everyone am)"
| "everyone_disabled _ = True"

text \<open>
  A panel session is the list of the select submissions made on the panel, oldest first.
  \<open>submitted c subs\<close> is what the session selected on component \<open>c\<close>: the values of its
  latest submission, nothing when the component was never touched.
\<close>

type_synonym session = "(component \<times> select_value list) list"

fun submitted_from :: "select_value list \<Rightarrow> component \<Rightarrow> session \<Rightarrow> select_value list" where
  "submitted_from cur c [] = cur"
| "submitted_from cur c (s # subs) = submitted_from (if fst s = c then snd s else cur) c subs"


definition run_session :: "session \<Rightarrow> setup_view \<Rightarrow> setup_view" where
  "run_session subs v = fold (\<lambda>s. refresh_state (fst s) (snd s)) subs v"

section \<open>A JSON codec\<close>

text \<open>
  An instance of the \<^verbatim>\<open>json\<close> parameter. The writer lays values out as
  \<^verbatim>\<open>json.dumps(data, indent=2)\<close> does, for strings of printable ASCII that need no escape.
  The reader is a recursive-descent parser whose fuel is a list longer than the text. It
  reads a part of JSON, the way \<^verbatim>\<open>json.loads\<close> reads it: \<^verbatim>\<open>null\<close>, \<^verbatim>\<open>true\<close>, \<^verbatim>\<open>false\<close>,
  integers, strings without escapes, lists and objects. It refuses every other text, so
  also the texts with fractions, exponents or escapes that \<^verbatim>\<open>json.loads\<close> reads into values
  which \<open>json\<close> does not have. The texts that \<open>save_cfg\<close> writes are in the part it reads.
\<close>

definition digit_char :: "nat \<Rightarrow> char" where
  "digit_char d = ''0123456789'' ! d"

fun show_nat :: "nat \<Rightarrow> string" where
  "show_nat n = (if n < 10 then [digit_char n] else show_nat (n div 10) @ [digit_char (n mod 10)])"

declare show_nat.simps [simp del]

definition show_int :: "int \<Rightarrow> string" where
  "show_int i = (if i < 0 then CHR ''-'' # show_nat (nat (- i)) else show_nat (nat i))"

fun indent :: "nat \<Rightarrow> string" where
  "indent 0 = []"
| "indent (Suc k) = CHR '' '' # CHR '' '' # indent k"

definition newline :: "nat \<Rightarrow> string" where
  "newline k = CHR 0x0A # indent k"

definition quoted :: "string \<Rightarrow> string" where
  "quoted s = CHR 0x22 # s @ [CHR 0x22]"

fun sep_concat :: "string \<Rightarrow> string list \<Rightarrow> string" where
  "sep_concat sep [] = []"
| "sep_concat sep [t] = t"
| "sep_concat sep (t # ts) = t @ sep @ sep_concat sep ts"

fun show_json :: "nat \<Rightarrow> json \<Rightarrow> string" where
  "show_json k JNull = ''null''"
| "show_json k (JBool b) = (if b then ''true'' else ''false'')"
| "show_json k (JInt n) = show_int n"
| "show_json k (JStr s) = quoted s"
| "show_json k (JList xs) =
     (if xs = [] then ''[]''
      else ''['' @ newline (Suc k)
           @ sep_concat ('','' @ newline (Suc k)) (map (show_json (Suc k)) xs)
           @ newline k @ '']'')"
| "show_json k (JObj kvs) =
     (if kvs = [] then ''{}''
      else ''{'' @ newline (Suc k)
           @ sep_concat ('','' @ newline (Suc k))
               (map (\<lambda>kv. quoted (fst kv) @ '': '' @ show_json (Suc k) (snd kv)) kvs)
           @ newline k @ ''}'')"

definition is_ws :: "char \<Rightarrow> bool" where
  "is_ws c = (c = CHR '' '' \<or> c = CHR 0x0A \<or> c = CHR 0x0D \<or> c = CHR 0x09)"

definition is_digit :: "char \<Rightarrow> bool" where
  "is_digit c = (c \<in> set ''0123456789'')"

definition digit_val :: "char \<Rightarrow> nat" where
  "digit_val c = length (takeWhile (\<lambda>d. d \<noteq> c) ''0123456789'')"

definition skip_ws :: "string \<Rightarrow> string" where
  "skip_ws s = dropWhile is_ws s"

definition read_nat :: "string \<Rightarrow> nat" where
  "read_nat ds = foldl (\<lambda>acc c. 10 * acc + digit_val c) 0 ds"

text \<open>An integer is \<^verbatim>\<open>-?(0|[1-9][0-9]*)\<close>: after a leading zero the number is over.\<close>

definition parse_number :: "string \<Rightarrow> (json \<times> string) option" where
  "parse_number s =
     (case s of
        [] \<Rightarrow> None
      | c # cs \<Rightarrow>
          (case takeWhile is_digit (if c = CHR ''-'' then cs else s) of
             [] \<Rightarrow> None
           | d # ds \<Rightarrow>
               if d = CHR ''0'' then Some (JInt 0, tl (if c = CHR ''-'' then cs else s))
               else Some (JInt (if c = CHR ''-'' then - int (read_nat (d # ds))
                                else int (read_nat (d # ds))),
                          dropWhile is_digit (if c = CHR ''-'' then cs else s))))"

text \<open>Inside a string the reader takes printable ASCII other than the quote and the
  backslash; it knows no escape.\<close>

definition is_plain :: "char \<Rightarrow> bool" where
  "is_plain c = (32 \<le> (of_char c :: nat) \<and> (of_char c :: nat) < 127
                 \<and> c \<noteq> CHR 0x22 \<and> c \<noteq> CHR 0x5C)"

definition parse_string :: "string \<Rightarrow> (string \<times> string) option" where
  "parse_string s =
     (case dropWhile is_plain s of
        [] \<Rightarrow> None
      | q # rest \<Rightarrow> if q = CHR 0x22 then Some (takeWhile is_plain s, rest) else None)"

definition parse_word :: "string \<Rightarrow> json \<Rightarrow> string \<Rightarrow> (json \<times> string) option" where
  "parse_word word v s =
     (if take (length word) s = word then Some (v, drop (length word) s) else None)"

text \<open>The dict of the pairs of an object, a pair in front of the dict of the later ones: a
  key that comes again keeps its first place and takes its last value.\<close>

definition dict_first :: "string \<Rightarrow> json \<Rightarrow> (string \<times> json) list \<Rightarrow> (string \<times> json) list" where
  "dict_first key x kvs =
     (case map_of kvs key of
        None \<Rightarrow> (key, x) # kvs
      | Some y \<Rightarrow> (key, y) # filter (\<lambda>kv. fst kv \<noteq> key) kvs)"

fun parse_value :: "char list \<Rightarrow> string \<Rightarrow> (json \<times> string) option"
  and parse_items :: "char list \<Rightarrow> string \<Rightarrow> (json list \<times> string) option"
  and parse_members :: "char list \<Rightarrow> string \<Rightarrow> ((string \<times> json) list \<times> string) option"
where
  "parse_value [] s = None"
| "parse_value (f # fuel) s =
     (case skip_ws s of
        [] \<Rightarrow> None
      | c # cs \<Rightarrow>
          if c = CHR ''n'' then parse_word ''ull'' JNull cs
          else if c = CHR ''t'' then parse_word ''rue'' (JBool True) cs
          else if c = CHR ''f'' then parse_word ''alse'' (JBool False) cs
          else if c = CHR 0x22 then map_option (\<lambda>(str, r). (JStr str, r)) (parse_string cs)
          else if c = CHR ''['' then
            (case skip_ws cs of
               [] \<Rightarrow> None
             | d # ds \<Rightarrow>
                 if d = CHR '']'' then Some (JList [], ds)
                 else map_option (\<lambda>(xs, r). (JList xs, r)) (parse_items fuel (d # ds)))
          else if c = CHR ''{'' then
            (case skip_ws cs of
               [] \<Rightarrow> None
             | d # ds \<Rightarrow>
                 if d = CHR ''}'' then Some (JObj [], ds)
                 else map_option (\<lambda>(kvs, r). (JObj kvs, r)) (parse_members fuel (d # ds)))
          else parse_number (c # cs))"
| "parse_items [] s = None"
| "parse_items (f # fuel) s =
     (case parse_value fuel s of
        None \<Rightarrow> None
      | Some (x, r) \<Rightarrow>
          (case skip_ws r of
             [] \<Rightarrow> None
           | c # cs \<Rightarrow>
               if c = CHR '']'' then Some ([x], cs)
               else if c = CHR '','' then
                 map_option (\<lambda>(xs, r'). (x # xs, r')) (parse_items fuel cs)
               else None))"
| "parse_members [] s = None"
| "parse_members (f # fuel) s =
     (case skip_ws s of
        [] \<Rightarrow> None
      | q # t \<Rightarrow>
          if q \<noteq> CHR 0x22 then None
          else
            (case parse_string t of
               None \<Rightarrow> None
             | Some (key, r) \<Rightarrow>
                 (case skip_ws r of
                    [] \<Rightarrow> None
                  | c # cs \<Rightarrow>
                      if c \<noteq> CHR '':'' then None
                      else
                        (case parse_value fuel cs of
                           None \<Rightarrow> None
                         | Some (x, r') \<Rightarrow>
                             (case skip_ws r' of
                                [] \<Rightarrow> None
                              | d # ds \<Rightarrow>
                                  if d = CHR ''}'' then Some ([(key, x)], ds)
                                  else if d = CHR '','' then
                                    map_option (\<lambda>(kvs, r''). (dict_first key x kvs, r''))
                                      (parse_members fuel ds)
                                  else None)))))"

definition read_json :: "string \<Rightarrow> error + json" where
  "read_json s =
     (case parse_value (CHR ''x'' # s) s of
        None \<Rightarrow> Inl ValueError
      | Some (v, r) \<Rightarrow> if skip_ws r = [] then Inr v else Inl ValueError)"

definition json_module :: json_lib where
  "json_module = \<lparr>loads = read_json, dumps = show_json 0\<rparr>"

section \<open>A small guild to run the model on\<close>

definition R1 :: role where
  "R1 = \<lparr>role_id = 10, role_name = ''R1'', position = 3, is_default = False\<rparr>"

definition R2 :: role where
  "R2 = \<lparr>role_id = 20, role_name = ''R2'', position = 2, is_default = False\<rparr>"

definition R3 :: role where
  "R3 = \<lparr>role_id = 30, role_name = ''R3'', position = 1, is_default = False\<rparr>"

definition everyone_role :: role where
  "everyone_role = \<lparr>role_id = 1, role_name = ''@everyone'', position = 0, is_default = True\<rparr>"

definition log_chan :: channel where
  "log_chan = \<lparr>channel_id = 100, channel_name = ''log'', is_text = True\<rparr>"

definition war_chan :: channel where
  "war_chan = \<lparr>channel_id = 200, channel_name = ''war'', is_text = True\<rparr>"

definition voice_chan :: channel where
  "voice_chan = \<lparr>channel_id = 300, channel_name = ''voice'', is_text = False\<rparr>"

definition demo_guild :: guild where
  "demo_guild =
     \<lparr>guild_id = 1, guild_roles = [everyone_role, R3, R1, R2],
      guild_channels = [log_chan, war_chan, voice_chan]\<rparr>"

definition demo_world :: world where
  "demo_world =
     \<lparr>files = Map.empty, writable = (\<lambda>gid. True), torn = (\<lambda>gid. None), now = 1700000000\<rparr>"

definition demo_admin :: user where
  "demo_admin = Member 7 [] True"

definition demo_interaction :: interaction where
  "demo_interaction =
     \<lparr>inter_user = demo_admin, inter_guild = Some demo_guild, inter_channel = war_chan\<rparr>"

definition demo_cfg :: json where
  "demo_cfg =
     JObj [(''allowed_role_ids'', JList [JInt 10]), (''admiral_role_id'', JInt 30),
           (''log_channel_id'', JInt 100)]"

text \<open>
  A panel on the demo guild, opened by \<open>demo_admin\<close>: its five selects are the ones that
  the constructor builds for \<open>demo_cfg\<close> before it comes to the buttons, with the defaults
  of that configuration on their options and no values yet.
\<close>

definition demo_view :: setup_view where
  "demo_view =
     \<lparr>view_timeout = 600, view_guild = demo_guild, view_cfg = demo_cfg, invoker = demo_admin,
      allowed_select =
        \<lparr>sel_placeholder = ''Allowed Roles (who can use commands)'',
         sel_min_values = 0, sel_max_values = 25,
         sel_options =
           [\<lparr>opt_label = ''R1'', opt_value = SId 10, opt_default = True\<rparr>,
            \<lparr>opt_label = ''R2'', opt_value = SId 20, opt_default = False\<rparr>,
            \<lparr>opt_label = ''R3'', opt_value = SId 30, opt_default = False\<rparr>],
         sel_row = 0, sel_values = [], roles_preselected = [JInt 10]\<rparr>,
      excluded_select =
        \<lparr>sel_placeholder = ''Excluded Roles (block these)'',
         sel_min_values = 0, sel_max_values = 25,
         sel_options =
           [\<lparr>opt_label = ''R1'', opt_value = SId 10, opt_default = False\<rparr>,
            \<lparr>opt_label = ''R2'', opt_value = SId 20, opt_default = False\<rparr>,
            \<lparr>opt_label = ''R3'', opt_value = SId 30, opt_default = False\<rparr>],
         sel_row = 1, sel_values = [], roles_preselected = []\<rparr>,
      admiral_select =
        \<lparr>sel_placeholder = ''Admiral Role (optional, pinged on /declare)'',
         sel_min_values = 0, sel_max_values = 1,
         sel_options =
           [\<lparr>opt_label = ''None'', opt_value = SNone, opt_default = False\<rparr>,
            \<lparr>opt_label = ''R1'', opt_value = SId 10, opt_default = False\<rparr>,
            \<lparr>opt_label = ''R2'', opt_value = SId 20, opt_default = False\<rparr>,
            \<lparr>opt_label = ''R3'', opt_value = SId 30, opt_default = True\<rparr>],
         sel_row = 2, sel_values = [], roles_preselected = [JInt 30]\<rparr>,
      war_select =
        \<lparr>sel_placeholder = ''War Declaration Channel (optional)'',
         sel_min_values = 0, sel_max_values = 1,
         sel_options =
           [\<lparr>opt_label = ''None'', opt_value = SNone, opt_default = True\<rparr>,
            \<lparr>opt_label = ''#log'', opt_value = SId 100, opt_default = False\<rparr>,
            \<lparr>opt_label = ''#war'', opt_value = SId 200, opt_default = False\<rparr>],
         sel_row = 3, sel_values = [], allow_none = True, chan_preselected = JNull\<rparr>,
      log_select =
        \<lparr>sel_placeholder = ''Log Channel (required, recommend private)'',
         sel_min_values = 1, sel_max_values = 1,
         sel_options =
           [\<lparr>opt_label = ''#log'', opt_value = SId 100, opt_default = True\<rparr>,
            \<lparr>opt_label = ''#war'', opt_value = SId 200, opt_default = False\<rparr>],
         sel_row = 4, sel_values = [], allow_none = False, chan_preselected = JInt 100\<rparr>\<rparr>"

lemmas codec_simps =
  json_module_def read_json_def skip_ws_def is_ws_def is_digit_def digit_val_def
  parse_string_def is_plain_def dict_first_def parse_word_def parse_number_def read_nat_def
  newline_def quoted_def show_int_def show_nat.simps digit_char_def

lemmas demo_simps =
  demo_guild_def demo_world_def demo_admin_def demo_interaction_def
  R1_def R2_def R3_def everyone_role_def log_chan_def war_chan_def voice_chan_def

section \<open>Authorization: properties\<close>

lemma any_in_ints: "any_in (map JInt xs) ids = Inr (\<exists>x\<in>set xs. x \<in> set ids)"
  by (induction xs) (auto split: bool.splits)

text \<open>
  C1. Exclusion wins over allowance. For a configuration whose allowed and excluded role
  lists are lists of role ids, and a guild member holding a role of the allowed list and a
  role of the excluded list, \<open>can_use_commands\<close> denies with the reason that the role is
  excluded.
\<close>

theorem exclusion_takes_precedence:
  assumes "map_of kvs ''allowed_role_ids'' = Some (JList (map JInt allowed))"
      and "map_of kvs ''excluded_role_ids'' = Some (JList (map JInt excluded))"
      and "set allowed \<inter> role_id ` set rs \<noteq> {}"
      and "set excluded \<inter> role_id ` set rs \<noteq> {}"
    shows "can_use_commands (Member uid rs adm) (JObj kvs) = Inr (False, msg_excluded)"
proof -
  from assms(3) have a: "allowed \<noteq> []" "\<exists>x\<in>set allowed. x \<in> role_id ` set rs" by auto
  from assms(4) have e: "excluded \<noteq> []" "\<exists>x\<in>set excluded. x \<in> role_id ` set rs" by auto
  have ha: "member_has_any_role (Member uid rs adm) (JList (map JInt allowed)) = Inr True"
    using a by (simp add: member_has_any_role_def any_in_ints)
  have he: "member_has_any_role (Member uid rs adm) (JList (map JInt excluded)) = Inr True"
    using e by (simp add: member_has_any_role_def any_in_ints)
  show ?thesis
    using a(1) e(1) by (simp add: can_use_commands_def assms(1,2) ha he)
qed

theorem exclusion_takes_precedence_witness:
  "can_use_commands (Member 7 [R1, R2] False)
     (JObj [(''allowed_role_ids'', JList [JInt 10]), (''excluded_role_ids'', JList [JInt 20])])
   = Inr (False, msg_excluded)"
  using exclusion_takes_precedence
    [of "[(''allowed_role_ids'', JList [JInt 10]), (''excluded_role_ids'', JList [JInt 20])]"
        "[10]" "[20]" "[R1, R2]" 7 False]
  by (simp add: R1_def R2_def)

text \<open>
  C2. Nothing configured, nobody allowed. When the allowed role list of the configuration
  is empty (or the key is missing, which reads as the empty list), \<open>can_use_commands\<close>
  denies every user, whatever roles the user holds and whatever the excluded list is,
  with the reason that no allowed roles are configured.
\<close>

theorem empty_allowed_denies_everyone:
  assumes "map_of kvs ''allowed_role_ids'' = None
           \<or> map_of kvs ''allowed_role_ids'' = Some (JList [])"
  shows "can_use_commands m (JObj kvs) = Inr (False, msg_not_configured)"
  using assms by (auto simp: can_use_commands_def split: option.splits)

theorem empty_allowed_denies_everyone_witness:
  "can_use_commands (Member 7 [R2] False)
     (JObj [(''allowed_role_ids'', JList []), (''excluded_role_ids'', JList [JInt 20])])
   = Inr (False, msg_not_configured)
   \<and> can_use_commands (Member 8 [] False) (JObj []) = Inr (False, msg_not_configured)"
  using empty_allowed_denies_everyone
    [of "[(''allowed_role_ids'', JList []), (''excluded_role_ids'', JList [JInt 20])]"
        "Member 7 [R2] False"]
    empty_allowed_denies_everyone [of "[]" "Member 8 [] False"]
  by simp

text \<open>
  C10. Missing or corrupt storage degrades to deny-all. When the config file of a guild is
  absent, cannot be read, or holds text that \<^verbatim>\<open>json.loads\<close> rejects, \<open>load_cfg\<close> returns the
  empty dict (it has no way to raise); \<open>can_use_commands\<close> then denies every user with the
  reason that nothing is configured, and the check in front of the two commands answers
  with that message and lets nothing through.
\<close>

theorem missing_or_corrupt_config_denies:
  assumes "files w gid = None \<or> files w gid = Some Unreadable
           \<or> (\<exists>t e. files w gid = Some (Contents t) \<and> loads J t = Inl e)"
  shows "load_cfg J w gid = JObj []
         \<and> can_use_commands m (load_cfg J w gid) = Inr (False, msg_not_configured)
         \<and> (inter_guild i = Some g \<and> guild_id g = gid
              \<longrightarrow> require_configured_access J w i
                    = (Inr False, [SendMessage msg_not_configured True]))"
proof -
  have l: "load_cfg J w gid = JObj []"
    using assms by (auto simp: load_cfg_def)
  have c: "\<And>u. can_use_commands u (JObj []) = Inr (False, msg_not_configured)"
    by (simp add: can_use_commands_def)
  show ?thesis
    by (auto simp: l c require_configured_access_def)
qed

theorem missing_or_corrupt_config_denies_witness:
  "loads json_module ''{broken'' = Inl ValueError
   \<and> load_cfg json_module (demo_world\<lparr>files := [1 \<mapsto> Contents ''{broken'']\<rparr>) 1 = JObj []
   \<and> can_use_commands (Member 7 [R1] False)
        (load_cfg json_module (demo_world\<lparr>files := [1 \<mapsto> Contents ''{broken'']\<rparr>) 1)
      = Inr (False, msg_not_configured)
   \<and> require_configured_access json_module
        (demo_world\<lparr>files := [1 \<mapsto> Contents ''{broken'']\<rparr>) demo_interaction
      = (Inr False, [SendMessage msg_not_configured True])"
proof -
  have bad: "loads json_module ''{broken'' = Inl ValueError"
    by (simp add: codec_simps)
  have g: "inter_guild demo_interaction = Some demo_guild \<and> guild_id demo_guild = 1"
    by (simp add: demo_interaction_def demo_guild_def)
  have h: "files (demo_world\<lparr>files := [1 \<mapsto> Contents ''{broken'']\<rparr>) 1 = None
           \<or> files (demo_world\<lparr>files := [1 \<mapsto> Contents ''{broken'']\<rparr>) 1 = Some Unreadable
           \<or> (\<exists>t e. files (demo_world\<lparr>files := [1 \<mapsto> Contents ''{broken'']\<rparr>) 1
                        = Some (Contents t)
                      \<and> loads json_module t = Inl e)"
    using bad by simp
  show ?thesis
    using bad g
      missing_or_corrupt_config_denies
        [OF h, of "Member 7 [R1] False" demo_interaction demo_guild]
    by blast
qed

section \<open>The audit log: properties\<close>

lemma log_action_events:
  "snd (log_action g cfg content emb) = []
   \<or> (\<exists>c. snd (log_action g cfg content emb)
          = [ChannelSend c content emb \<lparr>am_roles = True, am_users = True, am_everyone = False\<rparr>])"
  by (auto simp: log_action_def split: sum.splits option.splits)

lemma log_action_safe: "ev \<in> set (snd (log_action g cfg content emb)) \<Longrightarrow> everyone_disabled ev"
  using log_action_events [of g cfg content emb] by auto

lemma log_action_new_cfg:
  "l \<noteq> 0 \<Longrightarrow> get_channel g l = Some ch \<Longrightarrow> is_text ch \<Longrightarrow>
   log_action g (new_cfg a e ad wa l u t) c emb
     = (Inr (), [ChannelSend (channel_id ch) c emb
                   \<lparr>am_roles = True, am_users = True, am_everyone = False\<rparr>])"
  by (simp add: log_action_def new_cfg_def get_channel_j_def)

lemma log_action_new_cfg_returns: "fst (log_action g (new_cfg a e ad wa l u t) c emb) = Inr ()"
  by (simp add: log_action_def new_cfg_def get_channel_j_def split: option.splits)

lemma demo_view_selects:
  "map_sum id
     (\<lambda>s. s\<lparr>sel_options :=
              map (role_option (\<lambda>i. int_in i [JInt 10])) (pickable_roles demo_guild)\<rparr>)
     (RolesSelect ''Allowed Roles (who can use commands)'' (JList [JInt 10]) 25 0)
   = Inr (allowed_select demo_view)"
  "map_sum id
     (\<lambda>s. s\<lparr>sel_options :=
              map (role_option (\<lambda>i. int_in i [])) (pickable_roles demo_guild)\<rparr>)
     (RolesSelect ''Excluded Roles (block these)'' (JList []) 25 1)
   = Inr (excluded_select demo_view)"
  "map_sum id
     (\<lambda>s. s\<lparr>sel_options :=
              none_option (JInt 30)
                # map (role_option (\<lambda>i. int_eq i (JInt 30))) (pickable_roles demo_guild)\<rparr>)
     (RolesSelect ''Admiral Role (optional, pinged on /declare)'' (JList [JInt 30]) 1 2)
   = Inr (admiral_select demo_view)"
  "map_sum id
     (\<lambda>s. s\<lparr>sel_options :=
              none_option JNull # map (channel_option JNull) (text_channels demo_guild)\<rparr>)
     (ChannelsSelect ''War Declaration Channel (optional)'' True JNull 3)
   = Inr (war_select demo_view)"
  "map_sum id
     (\<lambda>s. s\<lparr>sel_options := map (channel_option (JInt 100)) (text_channels demo_guild)\<rparr>)
     (ChannelsSelect ''Log Channel (required, recommend private)'' False (JInt 100) 4)
   = Inr (log_select demo_view)"
  by (simp_all add: and_then_def check_row_def demo_view_def RolesSelect_def
      ChannelsSelect_def py_set_def pickable_roles_def text_channels_def role_option_def
      channel_option_def none_option_def int_in_def int_eq_def demo_simps)

lemma demo_view_values:
  "sel_values (allowed_select demo_view) = []" "sel_values (excluded_select demo_view) = []"
  "sel_values (admiral_select demo_view) = []" "sel_values (war_select demo_view) = []"
  "sel_values (log_select demo_view) = []" "view_guild demo_view = demo_guild"
  "invoker demo_view = demo_admin"
  by (simp_all add: demo_view_def)

lemma demo_channels:
  "get_channel demo_guild 100 = Some log_chan" "is_text log_chan" "channel_id log_chan = 100"
  "guild_id demo_guild = 1" "get_channel demo_guild 300 = Some voice_chan" "\<not> is_text voice_chan"
  "get_channel demo_guild 999 = None"
  by (simp_all add: get_channel_def demo_simps)

text \<open>
  C7. No audit destination, no audit, no error. When the configuration has no log channel
  id (missing, \<^verbatim>\<open>null\<close> or \<^verbatim>\<open>0\<close>), or the id finds no channel of the guild, or finds a channel
  that is not a text channel, \<open>log_action\<close> sends nothing and returns normally; the handlers
  of \<^verbatim>\<open>/roe\<close> and \<^verbatim>\<open>/declare\<close> that end with it then return normally too, having sent
  their private confirmation to the invoker.
\<close>

theorem log_action_noop_without_destination:
  assumes "dict_get cfg ''log_channel_id'' JNull = Inr j"
      and "\<not> truthy j \<or> get_channel_j g j = Inr None
           \<or> (\<exists>ch. get_channel_j g j = Inr (Some ch) \<and> \<not> is_text ch)"
  shows "log_action g cfg content emb = (Inr (), [])
         \<and> fst (roe_after_modal_submit w g cfg i offender target_role reason) = Inr ()
         \<and> (\<exists>t. SendMessage t True
                  \<in> set (snd (roe_after_modal_submit w g cfg i offender target_role reason)))
         \<and> fst (declare_after_modal_submit w g cfg i target adm wc reason) = Inr ()
         \<and> (\<exists>t. SendMessage t True
                  \<in> set (snd (declare_after_modal_submit w g cfg i target adm wc reason)))"
proof -
  have "\<And>content emb. log_action g cfg content emb = (Inr (), [])"
    using assms by (auto simp: log_action_def)
  then show ?thesis
    by (simp add: roe_after_modal_submit_def declare_after_modal_submit_def Let_def)
qed

theorem log_action_noop_without_destination_witness:
  "log_action demo_guild (JObj [(''log_channel_id'', JInt 999)]) [Txt ''entry''] None
     = (Inr (), [])
   \<and> fst (roe_after_modal_submit demo_world demo_guild (JObj [(''log_channel_id'', JInt 999)])
            demo_interaction (Member 9 [] False) R2 ''spawn camping'') = Inr ()
   \<and> log_action demo_guild (JObj [(''log_channel_id'', JInt 300)]) [Txt ''entry''] None
     = (Inr (), [])
   \<and> log_action demo_guild (JObj []) [Txt ''entry''] None = (Inr (), [])"
proof -
  have 1: "dict_get (JObj [(''log_channel_id'', JInt 999)]) ''log_channel_id'' JNull
             = Inr (JInt 999)"
          "get_channel_j demo_guild (JInt 999) = Inr None"
    by (simp_all add: get_channel_j_def demo_channels)
  have 2: "dict_get (JObj [(''log_channel_id'', JInt 300)]) ''log_channel_id'' JNull
             = Inr (JInt 300)"
          "get_channel_j demo_guild (JInt 300) = Inr (Some voice_chan)" "\<not> is_text voice_chan"
    by (simp_all add: get_channel_j_def demo_channels)
  have 3: "dict_get (JObj []) ''log_channel_id'' JNull = Inr JNull" "\<not> truthy JNull"
    by simp_all
  from log_action_noop_without_destination
         [of "JObj [(''log_channel_id'', JInt 999)]" "JInt 999" demo_guild "[Txt ''entry'']"
             None demo_world demo_interaction "Member 9 [] False" R2 "''spawn camping''"]
       log_action_noop_without_destination
         [of "JObj [(''log_channel_id'', JInt 300)]" "JInt 300" demo_guild "[Txt ''entry'']"
             None]
       log_action_noop_without_destination
         [of "JObj []" JNull demo_guild "[Txt ''entry'']" None]
       1 2 3
  show ?thesis by simp
qed

section \<open>The setup panel: properties\<close>

lemma ints_of_ids:
  "\<forall>x\<in>set vs. x \<noteq> SNone \<Longrightarrow> \<exists>ns. ints_of vs = Inr ns"
proof (induction vs)
  case Nil
  then show ?case by simp
next
  case (Cons v vs)
  then obtain ns where "ints_of vs = Inr ns" by auto
  moreover from Cons.prems obtain n where "v = SId n" by (cases v) auto
  ultimately show ?case by simp
qed

lemma save_cases:
  fixes J w v i
  defines "gid \<equiv> guild_id (view_guild v)"
  shows "(\<exists>e. save J w v i = (Inl e, w, v, []))
   \<or> (sel_values (log_select v) = []
       \<and> save J w v i = (Inr (), w, v, [SendMessage msg_select_log True]))
   \<or> (\<not> writable w gid \<and> sel_values (log_select v) \<noteq> []
       \<and> (\<exists>w'. save J w v i = (Inl OSError, w', v, [])))
   \<or> (writable w gid \<and> sel_values (log_select v) \<noteq> [] \<and>
       (\<exists>cfg' s r evs'.
          save J w v i
            = (r, w\<lparr>files := (files w)(gid \<mapsto> Contents (dumps J cfg'))\<rparr>, v,
               FileWrite gid (dumps J cfg') # EditMessage s # evs')
          \<and> (evs' = []
               \<or> (\<exists>c t. evs' = [ChannelSend c t None
                     \<lparr>am_roles = True, am_users = True, am_everyone = False\<rparr>]))))"
proof (cases "ints_of (sel_values (allowed_select v))")
  case (Inl e)
  then show ?thesis by (simp add: save_def and_then_def Let_def)
next
  case a: (Inr allowed)
  show ?thesis
  proof (cases "ints_of (sel_values (excluded_select v))")
    case (Inl e)
    then show ?thesis using a by (simp add: save_def and_then_def Let_def)
  next
    case e: (Inr excluded)
    show ?thesis
    proof (cases "sel_values (log_select v)")
      case Nil
      then show ?thesis using a e by (simp add: save_def and_then_def Let_def)
    next
      case (Cons lv lvs)
      show ?thesis
      proof (cases lv)
        case SNone
        then show ?thesis using a e Cons by (simp add: save_def and_then_def Let_def)
      next
        case (SId lid)
        show ?thesis
        proof (cases "writable w gid")
          case False
          then show ?thesis using a e Cons SId
            by (simp add: save_def and_then_def save_cfg_def gid_def Let_def)
        next
          case True
          let ?cfg = "new_cfg allowed excluded (first_id (sel_values (admiral_select v)))
                        (first_id (sel_values (war_select v))) lid (user_id (inter_user i)) (now w)"
          let ?s = "summary (view_guild v) allowed excluded (first_id (sel_values (admiral_select v)))
                        (first_id (sel_values (war_select v))) lid"
          let ?c = "[Uni 0x1F6E0, Uni 0xFE0F, Txt '' Configuration updated by '',
                     user_mention (inter_user i), Txt ''.'', nl] @ ?s"
          obtain r evs where la: "log_action (view_guild v) ?cfg ?c None = (r, evs)"
            by (cases "log_action (view_guild v) ?cfg ?c None")
          with log_action_events [of "view_guild v" ?cfg ?c None]
          have evs: "evs = [] \<or> (\<exists>c t. evs = [ChannelSend c t None
                     \<lparr>am_roles = True, am_users = True, am_everyone = False\<rparr>])"
            by auto
          have eq: "save J w v i
            = (r, w\<lparr>files := (files w)(gid \<mapsto> Contents (dumps J ?cfg))\<rparr>, v,
               FileWrite gid (dumps J ?cfg)
               # EditMessage ([Uni 0x2705, Txt '' **Configuration saved.**'', nl] @ ?s) # evs)"
            using a e Cons SId True la
            by (simp add: save_def and_then_def save_cfg_def gid_def Let_def)
          have "\<exists>cfg' s r evs'.
                  save J w v i
                    = (r, w\<lparr>files := (files w)(gid \<mapsto> Contents (dumps J cfg'))\<rparr>, v,
                       FileWrite gid (dumps J cfg') # EditMessage s # evs')
                  \<and> (evs' = []
                       \<or> (\<exists>c t. evs' = [ChannelSend c t None
                             \<lparr>am_roles = True, am_users = True, am_everyone = False\<rparr>]))"
            apply (rule exI [of _ ?cfg])
            apply (rule exI [of _ "[Uni 0x2705, Txt '' **Configuration saved.**'', nl] @ ?s"])
            apply (rule exI [of _ r])
            apply (rule exI [of _ evs])
            using eq evs apply simp
            done
          with True Cons show ?thesis by simp
        qed
      qed
    qed
  qed
qed

lemma save_success:
  assumes "ints_of (sel_values (allowed_select v)) = Inr allowed"
      and "ints_of (sel_values (excluded_select v)) = Inr excluded"
      and "sel_values (log_select v) = SId lid # rest"
      and "writable w (guild_id (view_guild v))"
  shows "save J w v i =
     (let g = view_guild v;
          admiral = first_id (sel_values (admiral_select v));
          war = first_id (sel_values (war_select v));
          cfg' = new_cfg allowed excluded admiral war lid (user_id (inter_user i)) (now w);
          s = summary g allowed excluded admiral war lid;
          la = log_action g cfg'
                 ([Uni 0x1F6E0, Uni 0xFE0F, Txt '' Configuration updated by '',
                   user_mention (inter_user i), Txt ''.'', nl] @ s) None
      in (fst la, w\<lparr>files := (files w)(guild_id g \<mapsto> Contents (dumps J cfg'))\<rparr>, v,
          FileWrite (guild_id g) (dumps J cfg')
          # EditMessage ([Uni 0x2705, Txt '' **Configuration saved.**'', nl] @ s)
          # snd la))"
  using assms
  by (simp add: save_def and_then_def save_cfg_def Let_def case_prod_beta)

lemma world_after_save:
  assumes "ints_of (sel_values (allowed_select v)) = Inr allowed"
      and "ints_of (sel_values (excluded_select v)) = Inr excluded"
      and "sel_values (log_select v) = SId lid # rest"
      and "writable w (guild_id (view_guild v))"
  shows "world_after (save J w v i) =
     w\<lparr>files := (files w)(guild_id (view_guild v) \<mapsto>
          Contents (dumps J (new_cfg allowed excluded
                      (first_id (sel_values (admiral_select v)))
                      (first_id (sel_values (war_select v)))
                      lid (user_id (inter_user i)) (now w))))\<rparr>"
  by (simp add: save_success [OF assms] world_after_def Let_def)

text \<open>A write that breaks off leaves the beginning of the new text in the file, and
  \<open>save\<close> ends there.\<close>

lemma save_torn_write:
  assumes "ints_of (sel_values (allowed_select v)) = Inr allowed"
      and "ints_of (sel_values (excluded_select v)) = Inr excluded"
      and "sel_values (log_select v) = SId lid # rest"
      and "\<not> writable w (guild_id (view_guild v))"
      and "torn w (guild_id (view_guild v)) = Some n"
  shows "save J w v i =
     (Inl OSError,
      w\<lparr>files := (files w)(guild_id (view_guild v) \<mapsto>
           Contents (take n (dumps J (new_cfg allowed excluded
                       (first_id (sel_values (admiral_select v)))
                       (first_id (sel_values (war_select v)))
                       lid (user_id (inter_user i)) (now w)))))\<rparr>,
      v, [])"
  using assms by (simp add: save_def and_then_def save_cfg_def Let_def)

lemma refresh_state_values:
  "sel_values (allowed_select (refresh_state c vs v))
     = (if c = AllowedSel then vs else sel_values (allowed_select v))"
  "sel_values (excluded_select (refresh_state c vs v))
     = (if c = ExcludedSel then vs else sel_values (excluded_select v))"
  "sel_values (admiral_select (refresh_state c vs v))
     = (if c = AdmiralSel then vs else sel_values (admiral_select v))"
  "sel_values (war_select (refresh_state c vs v))
     = (if c = WarSel then vs else sel_values (war_select v))"
  "sel_values (log_select (refresh_state c vs v))
     = (if c = LogSel then vs else sel_values (log_select v))"
  "view_guild (refresh_state c vs v) = view_guild v"
  "invoker (refresh_state c vs v) = invoker v"
  by (cases c; simp)+

lemma run_session_values:
  "sel_values (allowed_select (run_session subs v))
     = submitted_from (sel_values (allowed_select v)) AllowedSel subs"
  "sel_values (excluded_select (run_session subs v))
     = submitted_from (sel_values (excluded_select v)) ExcludedSel subs"
  "sel_values (admiral_select (run_session subs v))
     = submitted_from (sel_values (admiral_select v)) AdmiralSel subs"
  "sel_values (war_select (run_session subs v))
     = submitted_from (sel_values (war_select v)) WarSel subs"
  "sel_values (log_select (run_session subs v))
     = submitted_from (sel_values (log_select v)) LogSel subs"
  "view_guild (run_session subs v) = view_guild v"
  "invoker (run_session subs v) = invoker v"
  by (induction subs arbitrary: v; simp add: run_session_def refresh_state_values)+


lemma and_then_Inr: "and_then r f = Inr y \<longleftrightarrow> (\<exists>x. r = Inr x \<and> f x = Inr y)"
  by (cases r) (simp_all add: and_then_def)



text \<open>No panel comes out of the constructor: the buttons ask for row 5.\<close>

lemma SetupView_raises: "SetupView g cfg opener \<noteq> Inr v"
  by (simp add: SetupView_def and_then_Inr Button_def check_row_def)



lemma ints_of_ids_eq: "ints_of (map SId ns) = Inr ns"
  by (induction ns) simp_all

lemma json_of_first_id:
  "json_of_id (first_id vs)
     = (case vs of [] \<Rightarrow> JNull | SNone # x \<Rightarrow> JNull | SId n # x \<Rightarrow> JInt n)"
  by (cases vs rule: first_id.cases) (simp_all add: json_of_id_def)




text \<open>
  C3. A save without a log channel changes nothing. When the log-channel select holds no
  value, \<open>save\<close> leaves the world (so the config file) and the view as they were, writes no
  file and does not take the panel off the message; and when the values of the two role
  selects are role ids, as the options of those selects are, it answers the invoker, and
  only the invoker, with the request to select a log channel, and does nothing else.
\<close>

theorem save_without_log_channel_rejected:
  assumes "sel_values (log_select v) = []"
  shows "world_after (save J w v i) = w
         \<and> view_after (save J w v i) = v
         \<and> (\<forall>ev\<in>set (events_of (save J w v i)). \<not> is_file_write ev \<and> \<not> closes_panel ev)
         \<and> ((\<forall>x\<in>set (sel_values (allowed_select v)) \<union> set (sel_values (excluded_select v)).
                x \<noteq> SNone)
              \<longrightarrow> save J w v i = (Inr (), w, v, [SendMessage msg_select_log True]))"
proof -
  have 1: "world_after (save J w v i) = w \<and> view_after (save J w v i) = v
         \<and> (\<forall>ev\<in>set (events_of (save J w v i)). \<not> is_file_write ev \<and> \<not> closes_panel ev)"
    using save_cases [of J w v i] assms
    by (auto simp: world_after_def view_after_def events_of_def)
  have 2: "save J w v i = (Inr (), w, v, [SendMessage msg_select_log True])"
    if "\<forall>x\<in>set (sel_values (allowed_select v)) \<union> set (sel_values (excluded_select v)).
          x \<noteq> SNone"
  proof -
    from that obtain a e where
      "ints_of (sel_values (allowed_select v)) = Inr a"
      "ints_of (sel_values (excluded_select v)) = Inr e"
      using ints_of_ids [of "sel_values (allowed_select v)"]
        ints_of_ids [of "sel_values (excluded_select v)"] by auto
    with assms show ?thesis by (simp add: save_def and_then_def Let_def)
  qed
  from 1 2 show ?thesis by blast
qed

theorem save_without_log_channel_rejected_witness:
  "sel_values (log_select (run_session [(AllowedSel, [SId 10, SId 20])] demo_view)) = []
   \<and> save json_module demo_world (run_session [(AllowedSel, [SId 10, SId 20])] demo_view)
        demo_interaction
      = (Inr (), demo_world, run_session [(AllowedSel, [SId 10, SId 20])] demo_view,
         [SendMessage msg_select_log True])"
  using save_without_log_channel_rejected [of "run_session [(AllowedSel, [SId 10, SId 20])] demo_view" json_module demo_world
      demo_interaction]
  by (simp add: run_session_values demo_view_values)

text \<open>
  C6. The config is written before the audit entry, and a failed write means no audit
  entry. When the file of the guild cannot be written, \<open>save\<close> sends nothing to any channel
  (and, once a log channel is selected, it ends with an exception); and whenever \<open>save\<close>
  sends to a channel, the write of the config file comes earlier in what \<open>save\<close> did, and
  the file holds what was written.
\<close>

theorem write_precedes_audit:
  "(\<not> writable w (guild_id (view_guild v))
      \<longrightarrow> (\<forall>ev\<in>set (events_of (save J w v i)). \<not> is_channel_send ev)
          \<and> (sel_values (log_select v) \<noteq> [] \<longrightarrow> result_of (save J w v i) \<noteq> Inr ()))
   \<and> (\<forall>xs ev ys. events_of (save J w v i) = xs @ ev # ys \<and> is_channel_send ev
         \<longrightarrow> (\<exists>t. FileWrite (guild_id (view_guild v)) t \<in> set xs
                  \<and> files (world_after (save J w v i)) (guild_id (view_guild v))
                      = Some (Contents t)))"
proof -
  have a: "(\<forall>ev\<in>set (events_of (save J w v i)). \<not> is_channel_send ev)
          \<and> (sel_values (log_select v) \<noteq> [] \<longrightarrow> result_of (save J w v i) \<noteq> Inr ())"
    if "\<not> writable w (guild_id (view_guild v))"
    using save_cases [of J w v i] that
    by (auto simp: events_of_def result_of_def)
  have b: "\<exists>t. FileWrite (guild_id (view_guild v)) t \<in> set xs
                  \<and> files (world_after (save J w v i)) (guild_id (view_guild v))
                      = Some (Contents t)"
    if "events_of (save J w v i) = xs @ ev # ys" "is_channel_send ev" for xs ev ys
    using save_cases [of J w v i] that
    by (auto simp: events_of_def world_after_def Cons_eq_append_conv append_eq_Cons_conv)
  from a b show ?thesis by blast
qed

theorem write_precedes_audit_witness:
  "\<not> writable (demo_world\<lparr>writable := (\<lambda>gid. False)\<rparr>) (guild_id (view_guild demo_view))
   \<and> events_of (save json_module (demo_world\<lparr>writable := (\<lambda>gid. False)\<rparr>)
        (run_session [(LogSel, [SId 100])] demo_view) demo_interaction) = []
   \<and> result_of (save json_module (demo_world\<lparr>writable := (\<lambda>gid. False)\<rparr>)
        (run_session [(LogSel, [SId 100])] demo_view) demo_interaction) = Inl OSError
   \<and> map is_file_write (events_of (save json_module demo_world
        (run_session [(LogSel, [SId 100])] demo_view) demo_interaction)) = [True, False, False]
   \<and> map is_channel_send (events_of (save json_module demo_world
        (run_session [(LogSel, [SId 100])] demo_view) demo_interaction)) = [False, False, True]
   \<and> files (world_after (save json_module demo_world
        (run_session [(LogSel, [SId 100])] demo_view) demo_interaction)) 1
      = Some (Contents (dumps json_module (new_cfg [] [] None None 100 7 1700000000)))"
proof -
  let ?v = "run_session [(LogSel, [SId 100])] demo_view"
  let ?wf = "demo_world\<lparr>writable := (\<lambda>gid. False)\<rparr>"
  have f: "save json_module ?wf ?v demo_interaction = (Inl OSError, ?wf, ?v, [])"
    by (simp add: save_def and_then_def Let_def save_cfg_def run_session_values
        demo_view_values demo_world_def)
  have v: "ints_of (sel_values (allowed_select ?v)) = Inr []"
    "ints_of (sel_values (excluded_select ?v)) = Inr []"
    "sel_values (log_select ?v) = SId 100 # []"
    "writable demo_world (guild_id (view_guild ?v))"
    by (simp_all add: run_session_values demo_view_values demo_world_def)
  have la: "\<And>c. log_action demo_guild (new_cfg [] [] None None 100 7 1700000000) c None
     = (Inr (), [ChannelSend 100 c None
                   \<lparr>am_roles = True, am_users = True, am_everyone = False\<rparr>])"
    using log_action_new_cfg [of 100 demo_guild log_chan] by (simp add: demo_channels)
  have s: "events_of (save json_module demo_world ?v demo_interaction)
      = [FileWrite 1 (dumps json_module (new_cfg [] [] None None 100 7 1700000000)),
         EditMessage ([Uni 0x2705, Txt '' **Configuration saved.**'', nl]
                      @ summary demo_guild [] [] None None 100),
         ChannelSend 100
           ([Uni 0x1F6E0, Uni 0xFE0F, Txt '' Configuration updated by '', UserRef 7,
             Txt ''.'', nl] @ summary demo_guild [] [] None None 100)
           None \<lparr>am_roles = True, am_users = True, am_everyone = False\<rparr>]"
    unfolding save_success [OF v]
    by (simp add: Let_def events_of_def run_session_values
        demo_view_values demo_channels demo_world_def demo_interaction_def demo_admin_def
        la user_mention_def)
  from write_precedes_audit [of ?wf demo_view json_module demo_interaction]
    write_precedes_audit [of demo_world ?v json_module demo_interaction] f s
  show ?thesis
    unfolding world_after_save [OF v]
    by (simp add: events_of_def result_of_def run_session_values
        demo_view_values demo_channels demo_world_def demo_interaction_def demo_admin_def)
qed



section \<open>The JSON codec: reading back what was written\<close>

lemma show_nat_small: "n < 10 \<Longrightarrow> show_nat n = [digit_char n]"
  by (subst show_nat.simps) simp

lemma show_nat_big: "\<not> n < 10 \<Longrightarrow> show_nat n = show_nat (n div 10) @ [digit_char (n mod 10)]"
  by (subst show_nat.simps) simp

lemma digit_cases: "d < 10 \<Longrightarrow> d = 0 \<or> d = 1 \<or> d = 2 \<or> d = 3 \<or> d = 4 \<or> d = 5 \<or> d = 6 \<or> d = 7 \<or> d = 8 \<or> d = (9::nat)"
  by arith

lemma digit_char_props:
  assumes "d < 10"
  shows "is_digit (digit_char d)" "digit_val (digit_char d) = d"
        "digit_char d = CHR ''0'' \<longleftrightarrow> d = 0"
  using digit_cases [OF assms]
  by (auto simp: digit_char_def is_digit_def digit_val_def)

lemma is_digit_not_special:
  assumes "is_digit c"
  shows "\<not> is_ws c" "c \<noteq> CHR ''-''" "c \<noteq> CHR ''n''" "c \<noteq> CHR ''t''" "c \<noteq> CHR ''f''"
        "c \<noteq> CHR 0x22" "c \<noteq> CHR ''[''" "c \<noteq> CHR ''{''" "c \<noteq> CHR '']''" "c \<noteq> CHR ''}''"
        "c \<noteq> CHR '',''" "c \<noteq> CHR '':''"
  using assms by (auto simp: is_digit_def is_ws_def)

lemma show_nat_digits: "show_nat n \<noteq> [] \<and> (\<forall>c\<in>set (show_nat n). is_digit c)"
proof (induction n rule: show_nat.induct)
  case (1 n)
  show ?case
  proof (cases "n < 10")
    case True
    then show ?thesis by (simp add: show_nat_small digit_char_props)
  next
    case False
    then have "n mod 10 < 10" by simp
    with False 1 show ?thesis
      by (simp add: show_nat_big digit_char_props)
  qed
qed

lemma read_nat_snoc: "read_nat (ds @ [c]) = 10 * read_nat ds + digit_val c"
  by (simp add: read_nat_def)

lemma read_show_nat: "read_nat (show_nat n) = n"
proof (induction n rule: show_nat.induct)
  case (1 n)
  show ?case
  proof (cases "n < 10")
    case True
    then show ?thesis by (simp add: show_nat_small read_nat_def digit_char_props)
  next
    case False
    then have "n mod 10 < 10" by simp
    with False 1 show ?thesis
      by (simp add: show_nat_big read_nat_snoc digit_char_props)
  qed
qed

lemma show_nat_hd: "0 < n \<Longrightarrow> hd (show_nat n) \<noteq> CHR ''0''"
proof (induction n rule: show_nat.induct)
  case (1 n)
  show ?case
  proof (cases "n < 10")
    case True
    with 1 show ?thesis by (simp add: show_nat_small digit_char_props)
  next
    case False
    then have "0 < n div 10" by simp
    with False 1 show ?thesis
      by (simp add: show_nat_big show_nat_digits)
  qed
qed

lemma takeWhile_digits:
  assumes "\<forall>c\<in>set ds. is_digit c" "rest = [] \<or> \<not> is_digit (hd rest)"
  shows "takeWhile is_digit (ds @ rest) = ds" "dropWhile is_digit (ds @ rest) = rest"
  using assms by (cases rest; simp add: takeWhile_append2 dropWhile_append2)+

lemma parse_number_show_int:
  assumes "rest = [] \<or> \<not> is_digit (hd rest)"
  shows "parse_number (show_int n @ rest) = Some (JInt n, rest)"
proof (cases "n = 0")
  case True
  then have "show_int n = ''0''"
    by (simp add: show_int_def show_nat_small digit_char_def)
  with True assms show ?thesis
    by (cases rest) (auto simp: parse_number_def is_digit_def)
next
  case nz: False
  let ?m = "nat \<bar>n\<bar>"
  from nz have pos: "0 < ?m" by simp
  obtain d ds where ds: "show_nat ?m = d # ds"
    using show_nat_digits [of ?m] by (cases "show_nat ?m") auto
  have dig: "\<forall>c\<in>set (d # ds). is_digit c"
    using show_nat_digits [of ?m] ds by simp
  note tw = takeWhile_digits [OF dig assms]
  have d0: "d \<noteq> CHR ''0''"
    using show_nat_hd [OF pos] ds by simp
  have rn: "read_nat (d # ds) = ?m"
    using read_show_nat [of ?m] ds by simp
  show ?thesis
  proof (cases "n < 0")
    case True
    then have "show_int n = CHR ''-'' # d # ds"
      using ds by (simp add: show_int_def abs_if)
    with True tw d0 rn show ?thesis
      by (simp add: parse_number_def)
  next
    case False
    then have si: "show_int n = d # ds"
      using ds by (simp add: show_int_def abs_if)
    have "d \<noteq> CHR ''-''" using dig by (simp add: is_digit_not_special)
    with False tw d0 rn si show ?thesis
      by (simp add: parse_number_def)
  qed
qed


lemma ws_indent: "\<forall>c\<in>set (indent k). is_ws c"
  by (induction k) (auto simp: is_ws_def)

lemma ws_newline: "\<forall>c\<in>set (newline k). is_ws c"
  using ws_indent by (auto simp: newline_def is_ws_def)

lemma skip_ws_prefix: "\<forall>c\<in>set ws. is_ws c \<Longrightarrow> skip_ws (ws @ s) = skip_ws s"
  by (simp add: skip_ws_def dropWhile_append2)

lemma skip_ws_keep: "\<not> is_ws c \<Longrightarrow> skip_ws (c # s) = c # s"
  by (simp add: skip_ws_def)

lemma show_int_Cons:
  obtains c cs where "show_int n = c # cs" "c = CHR ''-'' \<or> is_digit c"
proof -
  obtain d ds where "show_nat (nat \<bar>n\<bar>) = d # ds" "is_digit d"
    using show_nat_digits [of "nat \<bar>n\<bar>"] by (cases "show_nat (nat \<bar>n\<bar>)") auto
  then show ?thesis
    using that by (cases "n < 0") (auto simp: show_int_def abs_if)
qed

lemma number_start:
  assumes "c = CHR ''-'' \<or> is_digit c"
  shows "\<not> is_ws c" "c \<noteq> CHR ''n''" "c \<noteq> CHR ''t''" "c \<noteq> CHR ''f''"
        "c \<noteq> CHR 0x22" "c \<noteq> CHR ''[''" "c \<noteq> CHR ''{''" "c \<noteq> CHR '']''" "c \<noteq> CHR ''}''"
  using assms by (auto simp: is_digit_def is_ws_def)

lemma parse_value_int:
  assumes "rest = [] \<or> \<not> is_digit (hd rest)" and "\<forall>c\<in>set ws. is_ws c"
  shows "parse_value (f # fuel) (ws @ show_int n @ rest) = Some (JInt n, rest)"
proof -
  obtain c cs where c: "show_int n = c # cs" "c = CHR ''-'' \<or> is_digit c"
    by (rule show_int_Cons)
  note ns = number_start [OF c(2)]
  have sk: "skip_ws (ws @ show_int n @ rest) = c # cs @ rest"
    using assms(2) c(1) ns(1) by (simp add: skip_ws_prefix skip_ws_keep)
  have "parse_value (f # fuel) (ws @ show_int n @ rest) = parse_number (c # cs @ rest)"
    using ns by (simp add: sk)
  also have "\<dots> = parse_number (show_int n @ rest)"
    by (simp add: c(1))
  finally show ?thesis
    by (simp add: parse_number_show_int [OF assms(1)])
qed

lemma parse_value_null:
  assumes "\<forall>c\<in>set ws. is_ws c"
  shows "parse_value (f # fuel) (ws @ CHR ''n'' # CHR ''u'' # CHR ''l'' # CHR ''l'' # rest)
         = Some (JNull, rest)"
proof -
  have "skip_ws (ws @ CHR ''n'' # CHR ''u'' # CHR ''l'' # CHR ''l'' # rest)
        = CHR ''n'' # CHR ''u'' # CHR ''l'' # CHR ''l'' # rest"
    using assms by (simp add: skip_ws_prefix skip_ws_keep is_ws_def)
  then show ?thesis
    by (simp add: parse_word_def)
qed

lemma parse_value_id:
  assumes "rest = [] \<or> \<not> is_digit (hd rest)" and "\<forall>c\<in>set ws. is_ws c"
  shows "parse_value (f # fuel) (ws @ show_json k (json_of_id x) @ rest)
         = Some (json_of_id x, rest)"
proof (cases x)
  case None
  then show ?thesis
    using parse_value_null [OF assms(2), of f fuel rest] by (simp add: json_of_id_def)
next
  case (Some n)
  then show ?thesis
    using parse_value_int [OF assms, of f fuel n] by (simp add: json_of_id_def)
qed

lemma parse_items_ints:
  assumes "Suc (length xs) < length fuel" and "\<forall>c\<in>set ws. is_ws c"
  shows "parse_items fuel
           (ws @ sep_concat (CHR '','' # newline k') (map show_int (x # xs))
               @ newline k @ CHR '']'' # rest)
         = Some (map JInt (x # xs), rest)"
  using assms
proof (induction xs arbitrary: x fuel ws)
  case Nil
  then obtain f f' fuel' where fuel: "fuel = f # f' # fuel'"
    by (cases fuel; cases "tl fuel") auto
  have nd: "\<not> is_digit (hd (newline k @ CHR '']'' # rest))"
    by (simp add: newline_def is_digit_def)
  have pv: "parse_value (f' # fuel') (ws @ show_int x @ newline k @ CHR '']'' # rest)
            = Some (JInt x, newline k @ CHR '']'' # rest)"
    using parse_value_int [of "newline k @ CHR '']'' # rest" ws f' fuel' x] nd Nil.prems(2)
    by simp
  have sk: "skip_ws (newline k @ CHR '']'' # rest) = CHR '']'' # rest"
    using ws_newline [of k] by (simp add: skip_ws_prefix skip_ws_keep is_ws_def)
  show ?case
    using pv sk by (simp add: fuel)
next
  case (Cons y ys)
  then obtain f f' fuel' where fuel: "fuel = f # f' # fuel'"
    by (cases fuel; cases "tl fuel") auto
  let ?tail = "sep_concat (CHR '','' # newline k') (map show_int (y # ys))
               @ newline k @ CHR '']'' # rest"
  have pv: "parse_value (f' # fuel') (ws @ show_int x @ CHR '','' # newline k' @ ?tail)
            = Some (JInt x, CHR '','' # newline k' @ ?tail)"
    using parse_value_int [of "CHR '','' # newline k' @ ?tail" ws f' fuel' x] Cons.prems(2)
    by (simp add: is_digit_def)
  have sk: "skip_ws (CHR '','' # newline k' @ ?tail) = CHR '','' # newline k' @ ?tail"
    by (simp add: skip_ws_keep is_ws_def)
  have ih: "parse_items (f' # fuel') (newline k' @ ?tail) = Some (map JInt (y # ys), rest)"
    using Cons.IH [of "f' # fuel'" "newline k'" y] Cons.prems(1) ws_newline [of k']
    by (simp add: fuel)
  show ?case
    using pv sk ih by (simp add: fuel)
qed

lemma parse_value_int_list:
  assumes "Suc (length xs) < length fuel" and "\<forall>c\<in>set ws. is_ws c"
  shows "parse_value (f # fuel) (ws @ show_json k (JList (map JInt xs)) @ rest)
         = Some (JList (map JInt xs), rest)"
proof (cases xs)
  case Nil
  have "skip_ws (ws @ CHR ''['' # CHR '']'' # rest) = CHR ''['' # CHR '']'' # rest"
    using assms(2) by (simp add: skip_ws_prefix skip_ws_keep is_ws_def)
  then show ?thesis
    using Nil by (simp add: skip_ws_keep is_ws_def)
next
  case (Cons y ys)
  let ?items = "sep_concat (CHR '','' # newline (Suc k)) (map show_int (y # ys))
                @ newline k @ CHR '']'' # rest"
  obtain c cs where c: "show_int y = c # cs" "c = CHR ''-'' \<or> is_digit c"
    by (rule show_int_Cons)
  note ns = number_start [OF c(2)]
  obtain d ds where d: "?items = d # ds" "d = c"
    using c(1) by (cases ys) auto
  have shape: "show_json k (JList (map JInt xs)) @ rest = CHR ''['' # newline (Suc k) @ ?items"
    using Cons by (simp add: comp_def)
  have sk1: "skip_ws (ws @ CHR ''['' # newline (Suc k) @ ?items)
             = CHR ''['' # newline (Suc k) @ ?items"
    using assms(2) by (simp add: skip_ws_prefix skip_ws_keep is_ws_def)
  have sk2: "skip_ws (newline (Suc k) @ ?items) = d # ds"
    using ws_newline [of "Suc k"] d ns(1) by (simp add: skip_ws_prefix skip_ws_keep)
  have pi: "parse_items fuel (d # ds) = Some (map JInt xs, rest)"
    using parse_items_ints [of ys fuel "[]" "Suc k" y k rest] assms(1) Cons d(1)
    by simp
  show ?thesis
    unfolding shape using sk1 sk2 pi d(2) ns by simp
qed


lemma parse_string_key:
  "list_all is_plain key \<Longrightarrow> parse_string (key @ CHR 0x22 # r) = Some (key, r)"
proof -
  assume "list_all is_plain key"
  then have "dropWhile is_plain (key @ CHR 0x22 # r) = CHR 0x22 # r"
    and "takeWhile is_plain (key @ CHR 0x22 # r) = key"
    by (induction key) (auto simp: is_plain_def)
  then show ?thesis by (simp add: parse_string_def)
qed

lemma member_more:
  assumes "\<forall>c\<in>set ws. is_ws c" and "list_all is_plain key"
      and "parse_value fuel (CHR '' '' # vtext @ CHR '','' # later) = Some (x, CHR '','' # later)"
      and "parse_members fuel later = Some (kvs, rest)"
      and "key \<notin> fst ` set kvs"
  shows "parse_members (f # fuel)
           (ws @ quoted key @ CHR '':'' # CHR '' '' # vtext @ CHR '','' # later)
         = Some ((key, x) # kvs, rest)"
proof -
  have sk: "skip_ws (ws @ quoted key @ CHR '':'' # CHR '' '' # vtext @ CHR '','' # later)
            = CHR 0x22 # key @ CHR 0x22 # CHR '':'' # CHR '' '' # vtext @ CHR '','' # later"
    using assms(1) by (simp add: skip_ws_prefix skip_ws_keep quoted_def is_ws_def)
  have sk2: "\<And>r. skip_ws (CHR '':'' # r) = CHR '':'' # r" "\<And>r. skip_ws (CHR '','' # r) = CHR '','' # r"
    by (simp_all add: skip_ws_keep is_ws_def)
  have fresh: "map_of kvs key = None"
    using assms(5) by (simp add: map_of_eq_None_iff)
  show ?thesis
    using assms(3,4) by (simp add: sk sk2 parse_string_key [OF assms(2)] dict_first_def fresh)
qed

lemma member_last:
  assumes "\<forall>c\<in>set ws. is_ws c" and "list_all is_plain key"
      and "parse_value fuel (CHR '' '' # vtext @ newline k @ CHR ''}'' # rest)
           = Some (x, newline k @ CHR ''}'' # rest)"
  shows "parse_members (f # fuel)
           (ws @ quoted key @ CHR '':'' # CHR '' '' # vtext @ newline k @ CHR ''}'' # rest)
         = Some ([(key, x)], rest)"
proof -
  have sk: "skip_ws (ws @ quoted key @ CHR '':'' # CHR '' '' # vtext @ newline k @ CHR ''}'' # rest)
            = CHR 0x22 # key @ CHR 0x22 # CHR '':'' # CHR '' '' # vtext
              @ newline k @ CHR ''}'' # rest"
    using assms(1) by (simp add: skip_ws_prefix skip_ws_keep quoted_def is_ws_def)
  have sk2: "\<And>r. skip_ws (CHR '':'' # r) = CHR '':'' # r"
    "skip_ws (newline k @ CHR ''}'' # rest) = CHR ''}'' # rest"
    using ws_newline [of k] by (simp_all add: skip_ws_prefix skip_ws_keep is_ws_def)
  show ?thesis
    using assms(3) by (simp add: sk sk2 parse_string_key [OF assms(2)])
qed

lemma sep_concat_Cons:
  "sep_concat sep (t # ts) = t @ (if ts = [] then [] else sep @ sep_concat sep ts)"
  by (cases ts) simp_all

lemma length_sep_concat: "length xs \<le> length (sep_concat sep (map show_int xs))"
proof (induction xs)
  case Nil
  then show ?case by simp
next
  case (Cons x xs)
  obtain c cs where "show_int x = c # cs" by (rule show_int_Cons)
  with Cons show ?case
    by (cases xs) (simp_all add: sep_concat_Cons del: sep_concat.simps)
qed

lemma length_int_list: "length xs \<le> length (show_json k (JList (map JInt xs)))"
  using length_sep_concat [of xs "CHR '','' # newline (Suc k)"]
  by (simp add: comp_def)


lemma parse_value_object:
  assumes "skip_ws body = m" and "m \<noteq> []" and "hd m \<noteq> CHR ''}''"
  shows "parse_value (f # fuel) (CHR ''{'' # body)
         = map_option (\<lambda>(kvs, r). (JObj kvs, r)) (parse_members fuel m)"
proof -
  obtain c cs where m: "m = c # cs" using assms(2) by (cases m) auto
  have "skip_ws (CHR ''{'' # body) = CHR ''{'' # body"
    by (simp add: skip_ws_keep is_ws_def)
  then show ?thesis
    using assms(1,3) unfolding m parse_value.simps by simp
qed

lemma show_new_cfg:
  "show_json 0 (new_cfg a e ad wa l u t) =
     CHR ''{'' # newline (Suc 0)
     @ quoted ''allowed_role_ids'' @ CHR '':'' # CHR '' '' # show_json (Suc 0) (JList (map JInt a)) @ CHR '','' # newline (Suc 0)
     @ quoted ''excluded_role_ids'' @ CHR '':'' # CHR '' '' # show_json (Suc 0) (JList (map JInt e)) @ CHR '','' # newline (Suc 0)
     @ quoted ''admiral_role_id'' @ CHR '':'' # CHR '' '' # show_json (Suc 0) (json_of_id ad) @ CHR '','' # newline (Suc 0)
     @ quoted ''war_channel_id'' @ CHR '':'' # CHR '' '' # show_json (Suc 0) (json_of_id wa) @ CHR '','' # newline (Suc 0)
     @ quoted ''log_channel_id'' @ CHR '':'' # CHR '' '' # show_int l @ CHR '','' # newline (Suc 0)
     @ quoted ''updated_by'' @ CHR '':'' # CHR '' '' # show_int u @ CHR '','' # newline (Suc 0)
     @ quoted ''updated_at'' @ CHR '':'' # CHR '' '' # show_int t @ newline 0 @ [CHR ''}'']"
  by (simp add: new_cfg_def del: show_json.simps(5))

lemma keys_plain:
  "list_all is_plain ''allowed_role_ids''" "list_all is_plain ''excluded_role_ids''"
  "list_all is_plain ''admiral_role_id''" "list_all is_plain ''war_channel_id''"
  "list_all is_plain ''log_channel_id''" "list_all is_plain ''updated_by''"
  "list_all is_plain ''updated_at''"
  by (simp_all add: is_plain_def)

lemma parse_value_new_cfg:
  assumes "Suc (length a) < length F" and "Suc (length e) < length F"
  shows "parse_value (f0 # f1 # f2 # f3 # f4 # f5 # f6 # f7 # f8 # F)
           (show_json 0 (new_cfg a e ad wa l u t))
         = Some (new_cfg a e ad wa l u t, [])"
proof -
  note nl = ws_newline [of "Suc 0"]
  have sp: "\<forall>c\<in>set [CHR '' '']. is_ws c" by (simp add: is_ws_def)
  have nd: "\<And>r. \<not> is_digit (hd (CHR '','' # r))" "\<And>r. \<not> is_digit (hd (newline 0 @ r))"
    by (simp_all add: is_digit_def newline_def)
  let ?m7 = "quoted ''updated_at'' @ CHR '':'' # CHR '' '' # show_int t @ newline 0 @ [CHR ''}'']"
  have p7: "parse_members (f7 # f8 # F) (newline (Suc 0) @ ?m7) = Some ([(''updated_at'', JInt t)], [])"
    by (rule member_last [where ws = "newline (Suc 0)" and k = 0 and rest = "[]"])
       (use nl sp nd keys_plain parse_value_int [of _ "[CHR '' '']" f8 "F" t] in simp_all)
  let ?m6 = "quoted ''updated_by'' @ CHR '':'' # CHR '' '' # show_int u @ CHR '','' # newline (Suc 0) @ ?m7"
  have p6: "parse_members (f6 # f7 # f8 # F) (newline (Suc 0) @ ?m6) = Some ([(''updated_by'', JInt u), (''updated_at'', JInt t)], [])"
    by (rule member_more [where ws = "newline (Suc 0)" and kvs = "[(''updated_at'', JInt t)]"])
       (use nl sp nd keys_plain assms p7 parse_value_int [of _ "[CHR '' '']" f7 "f8 # F" u] in simp_all)
  let ?m5 = "quoted ''log_channel_id'' @ CHR '':'' # CHR '' '' # show_int l @ CHR '','' # newline (Suc 0) @ ?m6"
  have p5: "parse_members (f5 # f6 # f7 # f8 # F) (newline (Suc 0) @ ?m5) = Some ([(''log_channel_id'', JInt l), (''updated_by'', JInt u), (''updated_at'', JInt t)], [])"
    by (rule member_more [where ws = "newline (Suc 0)" and kvs = "[(''updated_by'', JInt u), (''updated_at'', JInt t)]"])
       (use nl sp nd keys_plain assms p6 parse_value_int [of _ "[CHR '' '']" f6 "f7 # f8 # F" l] in simp_all)
  let ?m4 = "quoted ''war_channel_id'' @ CHR '':'' # CHR '' '' # show_json (Suc 0) (json_of_id wa) @ CHR '','' # newline (Suc 0) @ ?m5"
  have p4: "parse_members (f4 # f5 # f6 # f7 # f8 # F) (newline (Suc 0) @ ?m4) = Some ([(''war_channel_id'', json_of_id wa), (''log_channel_id'', JInt l), (''updated_by'', JInt u), (''updated_at'', JInt t)], [])"
    by (rule member_more [where ws = "newline (Suc 0)" and kvs = "[(''log_channel_id'', JInt l), (''updated_by'', JInt u), (''updated_at'', JInt t)]"])
       (use nl sp nd keys_plain assms p5 parse_value_id [of _ "[CHR '' '']" f5 "f6 # f7 # f8 # F" "Suc 0" wa] in simp_all)
  let ?m3 = "quoted ''admiral_role_id'' @ CHR '':'' # CHR '' '' # show_json (Suc 0) (json_of_id ad) @ CHR '','' # newline (Suc 0) @ ?m4"
  have p3: "parse_members (f3 # f4 # f5 # f6 # f7 # f8 # F) (newline (Suc 0) @ ?m3) = Some ([(''admiral_role_id'', json_of_id ad), (''war_channel_id'', json_of_id wa), (''log_channel_id'', JInt l), (''updated_by'', JInt u), (''updated_at'', JInt t)], [])"
    by (rule member_more [where ws = "newline (Suc 0)" and kvs = "[(''war_channel_id'', json_of_id wa), (''log_channel_id'', JInt l), (''updated_by'', JInt u), (''updated_at'', JInt t)]"])
       (use nl sp nd keys_plain assms p4 parse_value_id [of _ "[CHR '' '']" f4 "f5 # f6 # f7 # f8 # F" "Suc 0" ad] in simp_all)
  let ?m2 = "quoted ''excluded_role_ids'' @ CHR '':'' # CHR '' '' # show_json (Suc 0) (JList (map JInt e)) @ CHR '','' # newline (Suc 0) @ ?m3"
  have p2: "parse_members (f2 # f3 # f4 # f5 # f6 # f7 # f8 # F) (newline (Suc 0) @ ?m2) = Some ([(''excluded_role_ids'', JList (map JInt e)), (''admiral_role_id'', json_of_id ad), (''war_channel_id'', json_of_id wa), (''log_channel_id'', JInt l), (''updated_by'', JInt u), (''updated_at'', JInt t)], [])"
    by (rule member_more [where ws = "newline (Suc 0)" and kvs = "[(''admiral_role_id'', json_of_id ad), (''war_channel_id'', json_of_id wa), (''log_channel_id'', JInt l), (''updated_by'', JInt u), (''updated_at'', JInt t)]"])
       (use nl sp nd keys_plain assms p3 parse_value_int_list [of e "f4 # f5 # f6 # f7 # f8 # F" "[CHR '' '']" f3 "Suc 0"] in simp_all)
  let ?m1 = "quoted ''allowed_role_ids'' @ CHR '':'' # CHR '' '' # show_json (Suc 0) (JList (map JInt a)) @ CHR '','' # newline (Suc 0) @ ?m2"
  have p1: "parse_members (f1 # f2 # f3 # f4 # f5 # f6 # f7 # f8 # F) ([] @ ?m1) = Some ([(''allowed_role_ids'', JList (map JInt a)), (''excluded_role_ids'', JList (map JInt e)), (''admiral_role_id'', json_of_id ad), (''war_channel_id'', json_of_id wa), (''log_channel_id'', JInt l), (''updated_by'', JInt u), (''updated_at'', JInt t)], [])"
    by (rule member_more [where ws = "[]" and kvs = "[(''excluded_role_ids'', JList (map JInt e)), (''admiral_role_id'', json_of_id ad), (''war_channel_id'', json_of_id wa), (''log_channel_id'', JInt l), (''updated_by'', JInt u), (''updated_at'', JInt t)]"])
       (use nl sp nd keys_plain assms p2 parse_value_int_list [of a "f3 # f4 # f5 # f6 # f7 # f8 # F" "[CHR '' '']" f2 "Suc 0"] in simp_all)
  have p1': "parse_members (f1 # f2 # f3 # f4 # f5 # f6 # f7 # f8 # F) ?m1
             = Some ([(''allowed_role_ids'', JList (map JInt a)), (''excluded_role_ids'', JList (map JInt e)), (''admiral_role_id'', json_of_id ad), (''war_channel_id'', json_of_id wa), (''log_channel_id'', JInt l), (''updated_by'', JInt u), (''updated_at'', JInt t)], [])"
    using p1 by (simp only: append_Nil)
  have sk: "skip_ws (newline (Suc 0) @ ?m1) = ?m1"
    using nl by (simp add: skip_ws_prefix skip_ws_keep quoted_def is_ws_def)
  have hd1: "?m1 \<noteq> []" "hd ?m1 \<noteq> CHR ''}''"
    by (simp_all add: quoted_def)
  have "parse_value (f0 # f1 # f2 # f3 # f4 # f5 # f6 # f7 # f8 # F)
          (CHR ''{'' # newline (Suc 0) @ ?m1)
        = map_option (\<lambda>(kvs, r). (JObj kvs, r))
            (parse_members (f1 # f2 # f3 # f4 # f5 # f6 # f7 # f8 # F) ?m1)"
    by (rule parse_value_object [OF sk hd1])
  then have "parse_value (f0 # f1 # f2 # f3 # f4 # f5 # f6 # f7 # f8 # F)
          (CHR ''{'' # newline (Suc 0) @ ?m1)
        = Some (JObj [(''allowed_role_ids'', JList (map JInt a)), (''excluded_role_ids'', JList (map JInt e)), (''admiral_role_id'', json_of_id ad), (''war_channel_id'', json_of_id wa), (''log_channel_id'', JInt l), (''updated_by'', JInt u), (''updated_at'', JInt t)], [])"
    by (simp only: p1' option.map prod.case)
  then show ?thesis
    by (simp add: show_new_cfg) (simp add: new_cfg_def)
qed


lemma read_json_new_cfg:
  "read_json (show_json 0 (new_cfg a e ad wa l u t)) = Inr (new_cfg a e ad wa l u t)"
proof -
  let ?s = "show_json 0 (new_cfg a e ad wa l u t)"
  define F where "F = drop 8 ?s"
  have eq: "?s = CHR ''{'' # CHR 0x0A # CHR '' '' # CHR '' '' # CHR 0x22 # CHR ''a'' # CHR ''l''
                 # CHR ''l'' # F"
    unfolding F_def
    by (simp add: show_new_cfg newline_def quoted_def del: show_json.simps(5))
  have len: "Suc (length a) < length F" "Suc (length e) < length F"
    using length_int_list [of a "Suc 0"] length_int_list [of e "Suc 0"]
    unfolding F_def
    by (simp_all add: show_new_cfg newline_def quoted_def del: show_json.simps(5))
  have "parse_value
          (CHR ''x'' # CHR ''{'' # CHR 0x0A # CHR '' '' # CHR '' '' # CHR 0x22 # CHR ''a''
             # CHR ''l'' # CHR ''l'' # F) ?s
        = Some (new_cfg a e ad wa l u t, [])"
    by (rule parse_value_new_cfg [OF len])
  then have "parse_value (CHR ''x'' # ?s) ?s = Some (new_cfg a e ad wa l u t, [])"
    by (simp only: eq [symmetric])
  then show ?thesis
    by (simp add: read_json_def skip_ws_def)
qed

section \<open>Save and read back: properties\<close>

text \<open>
  C4 does not hold as stated: choosing the option \<^verbatim>\<open>"none"\<close> for the admiral role and never
  touching the admiral select leave the same file behind. On the demo guild, a session
  that selects the log channel and then \<^verbatim>\<open>"none"\<close> for the admiral role stores exactly what a
  session that only selects the log channel stores.
\<close>

theorem explicit_none_stored_like_untouched:
  "files (world_after (save json_module demo_world
            (run_session [(LogSel, [SId 100]), (AdmiralSel, [SNone])] demo_view)
            demo_interaction)) 1
   = files (world_after (save json_module demo_world
              (run_session [(LogSel, [SId 100])] demo_view) demo_interaction)) 1
   \<and> files (world_after (save json_module demo_world
              (run_session [(LogSel, [SId 100])] demo_view) demo_interaction)) 1
     = Some (Contents (dumps json_module (new_cfg [] [] None None 100 7 1700000000)))"
proof -
  let ?a = "run_session [(LogSel, [SId 100]), (AdmiralSel, [SNone])] demo_view"
  let ?b = "run_session [(LogSel, [SId 100])] demo_view"
  have a: "ints_of (sel_values (allowed_select ?a)) = Inr []"
    "ints_of (sel_values (excluded_select ?a)) = Inr []"
    "sel_values (log_select ?a) = SId 100 # []"
    "writable demo_world (guild_id (view_guild ?a))"
    by (simp_all add: run_session_values demo_view_values demo_world_def)
  have b: "ints_of (sel_values (allowed_select ?b)) = Inr []"
    "ints_of (sel_values (excluded_select ?b)) = Inr []"
    "sel_values (log_select ?b) = SId 100 # []"
    "writable demo_world (guild_id (view_guild ?b))"
    by (simp_all add: run_session_values demo_view_values demo_world_def)
  show ?thesis
    unfolding world_after_save [OF a] world_after_save [OF b]
    by (simp add: run_session_values demo_view_values demo_channels demo_world_def
        demo_interaction_def demo_admin_def)
qed

text \<open>
  C4, amended. After a save that goes through (the values of the role selects are ids, the
  log-channel select holds an id, the file can be written), \<open>save\<close> ends normally and
  reading the config of the guild back returns exactly the dict that was saved: the ids of
  the two role selects, the first value of the admiral and of the war-channel select or
  \<^verbatim>\<open>null\<close>, the log channel, the invoker and the time. The admiral role reads back as
  \<^verbatim>\<open>null\<close> both when \<^verbatim>\<open>"none"\<close> was selected and when the select was never touched.
\<close>

theorem save_then_load_returns_saved:
  assumes "sel_values (allowed_select v) = map SId allowed"
      and "sel_values (excluded_select v) = map SId excluded"
      and "sel_values (log_select v) = SId lid # rest"
      and "writable w (guild_id (view_guild v))"
      and "admiral = (case sel_values (admiral_select v) of
                        [] \<Rightarrow> JNull | SNone # x \<Rightarrow> JNull | SId n # x \<Rightarrow> JInt n)"
      and "war = (case sel_values (war_select v) of
                    [] \<Rightarrow> JNull | SNone # x \<Rightarrow> JNull | SId n # x \<Rightarrow> JInt n)"
  shows "result_of (save json_module w v i) = Inr ()
         \<and> load_cfg json_module (world_after (save json_module w v i)) (guild_id (view_guild v))
           = JObj [(''allowed_role_ids'', JList (map JInt allowed)),
                   (''excluded_role_ids'', JList (map JInt excluded)),
                   (''admiral_role_id'', admiral),
                   (''war_channel_id'', war),
                   (''log_channel_id'', JInt lid),
                   (''updated_by'', JInt (user_id (inter_user i))),
                   (''updated_at'', JInt (now w))]
         \<and> (sel_values (admiral_select v) = [SNone] \<or> sel_values (admiral_select v) = []
              \<longrightarrow> dict_get
                    (load_cfg json_module (world_after (save json_module w v i))
                       (guild_id (view_guild v)))
                    ''admiral_role_id'' (JStr ''absent'') = Inr JNull)"
proof -
  let ?saved = "new_cfg allowed excluded (first_id (sel_values (admiral_select v)))
                  (first_id (sel_values (war_select v))) lid (user_id (inter_user i)) (now w)"
  have h: "ints_of (sel_values (allowed_select v)) = Inr allowed"
    "ints_of (sel_values (excluded_select v)) = Inr excluded"
    "sel_values (log_select v) = SId lid # rest"
    "writable w (guild_id (view_guild v))"
    using assms(3,4) by (simp_all add: assms(1,2) ints_of_ids_eq)
  have r: "result_of (save json_module w v i) = Inr ()"
    by (simp add: save_success [OF h] result_of_def Let_def log_action_new_cfg_returns)
  have "load_cfg json_module (world_after (save json_module w v i)) (guild_id (view_guild v))
        = ?saved"
    by (simp add: world_after_save [OF h] load_cfg_def json_module_def read_json_new_cfg)
  also have "?saved = JObj [(''allowed_role_ids'', JList (map JInt allowed)),
                   (''excluded_role_ids'', JList (map JInt excluded)),
                   (''admiral_role_id'', admiral),
                   (''war_channel_id'', war),
                   (''log_channel_id'', JInt lid),
                   (''updated_by'', JInt (user_id (inter_user i))),
                   (''updated_at'', JInt (now w))]"
    by (simp only: new_cfg_def json_of_first_id assms(5,6))
  finally have l: "load_cfg json_module (world_after (save json_module w v i))
                     (guild_id (view_guild v))
           = JObj [(''allowed_role_ids'', JList (map JInt allowed)),
                   (''excluded_role_ids'', JList (map JInt excluded)),
                   (''admiral_role_id'', admiral),
                   (''war_channel_id'', war),
                   (''log_channel_id'', JInt lid),
                   (''updated_by'', JInt (user_id (inter_user i))),
                   (''updated_at'', JInt (now w))]" .
  have n: "admiral = JNull"
    if "sel_values (admiral_select v) = [SNone] \<or> sel_values (admiral_select v) = []"
    using that by (auto simp: assms(5))
  from r l n show ?thesis by simp
qed

theorem save_then_load_returns_saved_witness:
  "result_of (save json_module demo_world
      (run_session [(AllowedSel, [SId 10, SId 20]), (ExcludedSel, [SId 30]),
                    (LogSel, [SId 100]), (AdmiralSel, [SNone]), (WarSel, [SId 200])]
         demo_view)
      demo_interaction) = Inr ()
   \<and> load_cfg json_module
        (world_after (save json_module demo_world
           (run_session [(AllowedSel, [SId 10, SId 20]), (ExcludedSel, [SId 30]),
                         (LogSel, [SId 100]), (AdmiralSel, [SNone]), (WarSel, [SId 200])]
              demo_view)
           demo_interaction)) 1
      = JObj [(''allowed_role_ids'', JList [JInt 10, JInt 20]),
              (''excluded_role_ids'', JList [JInt 30]),
              (''admiral_role_id'', JNull),
              (''war_channel_id'', JInt 200),
              (''log_channel_id'', JInt 100),
              (''updated_by'', JInt 7),
              (''updated_at'', JInt 1700000000)]
   \<and> dict_get
        (load_cfg json_module
          (world_after (save json_module demo_world
             (run_session [(AllowedSel, [SId 10, SId 20]), (ExcludedSel, [SId 30]),
                           (LogSel, [SId 100]), (AdmiralSel, [SNone]), (WarSel, [SId 200])]
                demo_view)
             demo_interaction)) 1)
        ''admiral_role_id'' (JStr ''absent'') = Inr JNull"
proof -
  let ?v = "run_session [(AllowedSel, [SId 10, SId 20]), (ExcludedSel, [SId 30]),
                         (LogSel, [SId 100]), (AdmiralSel, [SNone]), (WarSel, [SId 200])]
              demo_view"
  have vals: "sel_values (allowed_select ?v) = map SId [10, 20]"
    "sel_values (excluded_select ?v) = map SId [30]"
    "sel_values (log_select ?v) = SId 100 # []"
    "writable demo_world (guild_id (view_guild ?v))"
    "JNull = (case sel_values (admiral_select ?v) of
                [] \<Rightarrow> JNull | SNone # x \<Rightarrow> JNull | SId n # x \<Rightarrow> JInt n)"
    "JInt 200 = (case sel_values (war_select ?v) of
                   [] \<Rightarrow> JNull | SNone # x \<Rightarrow> JNull | SId n # x \<Rightarrow> JInt n)"
    by (simp_all add: run_session_values demo_view_values demo_world_def)
  have ids: "sel_values (admiral_select ?v) = [SNone]" "guild_id (view_guild ?v) = 1"
    "user_id (inter_user demo_interaction) = 7" "now demo_world = 1700000000"
    by (simp_all add: run_session_values demo_view_values demo_channels demo_world_def
        demo_interaction_def demo_admin_def)
  from save_then_load_returns_saved [OF vals, of demo_interaction] show ?thesis
    by (simp add: ids)
qed

section \<open>Mentions: properties\<close>

lemma save_safe: "ev \<in> set (events_of (save J w v i)) \<Longrightarrow> everyone_disabled ev"
  using save_cases [of J w v i] by (auto simp: events_of_def)

lemma roe_after_safe:
  "ev \<in> set (snd (roe_after_modal_submit w g cfg i off tr reason)) \<Longrightarrow> everyone_disabled ev"
  by (auto simp: roe_after_modal_submit_def Let_def case_prod_beta dest: log_action_safe)

lemma declare_after_safe:
  "ev \<in> set (snd (declare_after_modal_submit w g cfg i target adm wc reason))
   \<Longrightarrow> everyone_disabled ev"
  by (auto simp: declare_after_modal_submit_def Let_def case_prod_beta
           split: option.splits if_splits dest: log_action_safe)

lemma roe_closure_safe:
  "fst (roe J w i offender target) = Inr k \<Longrightarrow> ev \<in> set (snd (k w' reason))
   \<Longrightarrow> everyone_disabled ev"
  by (auto simp: roe_def split: option.splits dest: roe_after_safe)

lemma declare_closure_safe:
  "fst (declare_command J w i target) = Inr k \<Longrightarrow> ev \<in> set (snd (k w' reason))
   \<Longrightarrow> everyone_disabled ev"
  by (auto simp: declare_command_def Let_def split: option.splits sum.splits prod.splits
           dest: declare_after_safe)

text \<open>
  C5. No message sent to a channel can ping everyone. Every \<^verbatim>\<open>channel.send\<close> of the program
  (the audit entry of \<open>log_action\<close>, the announcement of \<^verbatim>\<open>/roe\<close>, the announcement of
  \<^verbatim>\<open>/declare\<close> in the invoking channel and in the war channel, and the audit entries that
  these and \<open>save\<close> write) carries allowed mentions with \<^verbatim>\<open>everyone\<close> switched off,
  whatever the content, the target role, the configuration and the guild are.
\<close>

theorem channel_sends_never_ping_everyone:
  "(\<forall>ev\<in>set (snd (log_action g cfg content emb)). everyone_disabled ev)
   \<and> (\<forall>ev\<in>set (snd (roe_after_modal_submit w g cfg i offender target reason)).
         everyone_disabled ev)
   \<and> (\<forall>ev\<in>set (snd (declare_after_modal_submit w g cfg i target adm wc reason)).
         everyone_disabled ev)
   \<and> (\<forall>ev\<in>set (events_of (save J w v i)). everyone_disabled ev)
   \<and> (\<forall>k. fst (roe J w i offender target) = Inr k
         \<longrightarrow> (\<forall>ev\<in>set (snd (k w' reason)). everyone_disabled ev))
   \<and> (\<forall>k. fst (declare_command J w i target) = Inr k
         \<longrightarrow> (\<forall>ev\<in>set (snd (k w' reason)). everyone_disabled ev))"
  by (intro conjI ballI allI impI;
      (erule log_action_safe | erule roe_after_safe | erule declare_after_safe
       | erule save_safe | erule (1) roe_closure_safe | erule (1) declare_closure_safe))

theorem channel_sends_never_ping_everyone_witness:
  "log_action demo_guild demo_cfg [Txt ''@everyone''] None
   = (Inr (), [ChannelSend 100 [Txt ''@everyone''] None
                 \<lparr>am_roles = True, am_users = True, am_everyone = False\<rparr>])
   \<and> map is_channel_send
       (snd (roe_after_modal_submit demo_world demo_guild demo_cfg demo_interaction
               (Member 9 [R2] False) everyone_role ''@everyone''))
     = [True, False, True]
   \<and> sent_content
       (hd (snd (roe_after_modal_submit demo_world demo_guild demo_cfg demo_interaction
                   (Member 9 [R2] False) everyone_role ''@everyone'')))
     = [RoleRef 1]
   \<and> map everyone_disabled
       (snd (roe_after_modal_submit demo_world demo_guild demo_cfg demo_interaction
               (Member 9 [R2] False) everyone_role ''@everyone''))
     = [True, True, True]
   \<and> map is_channel_send
       (snd (declare_after_modal_submit demo_world demo_guild demo_cfg demo_interaction
               everyone_role (Some R3) (Some log_chan) ''border dispute''))
     = [True, True, False, True]
   \<and> map everyone_disabled
       (snd (declare_after_modal_submit demo_world demo_guild demo_cfg demo_interaction
               everyone_role (Some R3) (Some log_chan) ''border dispute''))
     = [True, True, True, True]"
proof -
  have la: "\<And>c. log_action demo_guild demo_cfg c None
     = (Inr (), [ChannelSend 100 c None
                   \<lparr>am_roles = True, am_users = True, am_everyone = False\<rparr>])"
    by (simp add: log_action_def demo_cfg_def get_channel_j_def demo_channels)
  have r: "map is_channel_send
     (snd (roe_after_modal_submit demo_world demo_guild demo_cfg demo_interaction
             (Member 9 [R2] False) everyone_role ''@everyone''))
   = [True, False, True]
   \<and> sent_content
       (hd (snd (roe_after_modal_submit demo_world demo_guild demo_cfg demo_interaction
                   (Member 9 [R2] False) everyone_role ''@everyone'')))
     = [RoleRef 1]"
    by (simp add: roe_after_modal_submit_def Let_def la role_mention_def everyone_role_def)
  have d: "map is_channel_send
       (snd (declare_after_modal_submit demo_world demo_guild demo_cfg demo_interaction
               everyone_role (Some R3) (Some log_chan) ''border dispute''))
     = [True, True, False, True]"
    by (simp add: declare_after_modal_submit_def Let_def la demo_channels)
  from r d la [of "[Txt ''@everyone'']"]
    channel_sends_never_ping_everyone
      [of demo_guild demo_cfg "[Txt ''@everyone'']" None demo_world demo_interaction
          "Member 9 [R2] False" everyone_role "''@everyone''" "Some R3" "Some log_chan"
          json_module demo_view demo_world]
    channel_sends_never_ping_everyone
      [of demo_guild demo_cfg "[Txt ''@everyone'']" None demo_world demo_interaction
          "Member 9 [R2] False" everyone_role "''border dispute''" "Some R3" "Some log_chan"
          json_module demo_view demo_world]
  show ?thesis
    by (simp add: roe_after_modal_submit_def declare_after_modal_submit_def Let_def la
        demo_channels)
qed

end
